theory Spec2Isabelle
  imports Main "HOL-Library.Word"
begin

section \<open>Data model of the thin engine\<close>

text \<open>
  The engine class of \<^verbatim>\<open>src/unnamed/part_000\<close> (thinEngine.ts) owns one WebGL context
  \<^verbatim>\<open>_gl\<close> and caches what is bound on it. The context itself is the driver: the model
  keeps the list of calls issued on it, oldest first, in the field \<open>gl\<close>, so that
  "issues a driver call" is "appends to \<open>gl\<close>".

  JavaScript objects are compared by identity (\<^verbatim>\<open>!==\<close>) and mutated in place, so objects
  are references into stores held by the engine state. A \<^verbatim>\<open>Nullable<T>\<close> parameter is a
  \<open>ref option\<close> (\<open>None\<close> is \<^verbatim>\<open>null\<close>); a slot of a JavaScript array or dictionary that may
  never have been written is an option of that (\<open>None\<close> is \<^verbatim>\<open>undefined\<close>, and
  \<^verbatim>\<open>undefined !== null\<close>). A method \<^verbatim>\<open>_name\<close> of the source is \<open>u_name\<close> here.
\<close>

type_synonym ref = nat

datatype error = Error string | Thrown string | TypeError

datatype bufferTarget = ARRAY_BUFFER | ELEMENT_ARRAY_BUFFER

datatype usage = STATIC_DRAW | DYNAMIC_DRAW

datatype elementArray = Uint16Array "16 word list" | Uint32Array "32 word list"

text \<open>
  \<^verbatim>\<open>IndicesArray = number[] | Int32Array | Uint32Array | Uint16Array\<close>. Index data are
  integers; an \<^verbatim>\<open>Int32Array\<close> element is read as a signed 32-bit value.
\<close>

datatype indicesArray =
    NumberArray "int list"
  | Int32Array "32 word list"
  | Typed elementArray

text \<open>
  \<^verbatim>\<open>DataArray | number\<close> for vertex data. The content is floating point and is not
  modelled: only what decides the capacity is kept (the length of a \<^verbatim>\<open>number[]\<close>, the
  \<^verbatim>\<open>byteLength\<close> of a binary buffer, or the requested size).
\<close>

datatype vertexData = DataSize nat | DataNumbers nat | DataBinary nat

datatype payload = Bytes nat | Elements elementArray

datatype indexFormat = UNSIGNED_SHORT | UNSIGNED_INT

datatype drawMode = TRIANGLES | POINTS | LINES | LINE_LOOP | LINE_STRIP | TRIANGLE_STRIP | TRIANGLE_FAN

datatype pixelStoreParameter = UNPACK_COLORSPACE_CONVERSION_WEBGL | UNPACK_PREMULTIPLY_ALPHA_WEBGL

text \<open>The fill modes of \<^verbatim>\<open>Constants\<close> that \<^verbatim>\<open>_drawMode\<close> distinguishes.\<close>

datatype fillMode =
    MATERIAL_TriangleFillMode
  | MATERIAL_PointFillMode
  | MATERIAL_WireFrameFillMode
  | MATERIAL_PointListDrawMode
  | MATERIAL_LineListDrawMode
  | MATERIAL_LineLoopDrawMode
  | MATERIAL_LineStripDrawMode
  | MATERIAL_TriangleStripDrawMode
  | MATERIAL_TriangleFanDrawMode
  | OtherFillMode int

datatype textureType =
    TEXTURETYPE_UNSIGNED_BYTE | TEXTURETYPE_FLOAT | TEXTURETYPE_HALF_FLOAT | OtherTextureType nat

datatype samplingMode =
    TEXTURE_NEAREST_SAMPLINGMODE | TEXTURE_TRILINEAR_SAMPLINGMODE | OtherSamplingMode nat

datatype textureFormat = TEXTUREFORMAT_RGBA | OtherTextureFormat nat

datatype glcall =
    BindBuffer bufferTarget "nat option"
  | BufferData bufferTarget payload usage
  | DeleteBuffer nat
  | BindVertexArray "nat option"
  | UseProgram "nat option"
  | ActiveTexture int
  | BindTexture nat "nat option"
  | Uniform1i ref int
  | EnableVertexAttribArray nat
  | DisableVertexAttribArray nat
  | VertexAttribPointer nat int int bool int int
  | VertexAttribIPointer nat int int int int
  | VertexAttribDivisor nat int
  | DrawElements drawMode int indexFormat int
  | DrawElementsInstanced drawMode int indexFormat int int
  | DrawArrays drawMode int int
  | DrawArraysInstanced drawMode int int int
  | ColorMask bool bool bool bool
  | PixelStorei pixelStoreParameter int

text \<open>
  A \<^verbatim>\<open>DataBuffer\<close> (the class \<^verbatim>\<open>WebGLDataBuffer\<close> is not under src): the fields the
  engine reads and writes.
\<close>

record dataBuffer =
  underlyingResource :: nat
  references :: int
  capacity :: int
  is32Bits :: bool

text \<open>
  The class \<^verbatim>\<open>BufferPointer\<close> at the top of the engine file (its field \<^verbatim>\<open>size\<close> is
  \<open>size_attr\<close> here). The fields of a new pointer are \<^verbatim>\<open>undefined\<close>; they are all written
  before they are read, since \<^verbatim>\<open>active\<close> starts falsy.
\<close>

record bufferPointer =
  active :: bool
  index :: nat
  size_attr :: int
  type :: int
  normalized :: bool
  stride :: int
  offset :: int
  buffer :: ref

text \<open>An \<^verbatim>\<open>InternalTexture\<close>, as far as \<^verbatim>\<open>_bindTextureDirectly\<close> reads and writes it.\<close>

record internalTexture =
  associatedChannel :: int
  isMultiview :: bool
  hardwareTexture :: "nat option"

text \<open>An \<^verbatim>\<open>Effect\<close>, as far as the engine reads and writes it.\<close>

record effect =
  key :: string
  refCount :: int
  attributesNames :: "string list"
  attributeLocations :: "int list"

text \<open>
  A \<^verbatim>\<open>VertexBuffer\<close> (class not under src), as far as \<^verbatim>\<open>_bindVertexBuffersAttributes\<close>
  reads it through its getters and fields.
\<close>

record vertexBuffer =
  getBuffer :: "ref option"
  getSize :: int
  vbType :: int
  vbNormalized :: bool
  byteStride :: int
  byteOffset :: int
  getIsInstanced :: bool
  getInstanceDivisor :: int

text \<open>
  The first argument of \<^verbatim>\<open>createEffect\<close>: a base name or an \<^verbatim>\<open>IShaderPath\<close> with the
  optional tokens; the second: a list of attribute names or an options object, of which
  \<^verbatim>\<open>attributes\<close> and \<^verbatim>\<open>defines\<close> (\<open>optDefines\<close>) are read here.
\<close>

record shaderPath =
  vertexToken :: "string option"
  vertexSource :: "string option"
  vertexElement :: "string option"
  vertex :: "string option"
  fragmentToken :: "string option"
  fragmentSource :: "string option"
  fragmentElement :: "string option"
  fragment :: "string option"

datatype baseName = BaseName string | ShaderPath shaderPath

record effectCreationOptions =
  attributes :: "string list"
  optDefines :: "string option"

datatype attributesNamesOrOptions = AttributesNames "string list" | Options effectCreationOptions

text \<open>
  The second argument of \<^verbatim>\<open>_createInternalTexture\<close>: a boolean or an options object
  (\<open>None\<close> is a field left \<^verbatim>\<open>undefined\<close>).
\<close>

record internalTextureCreationOptions =
  optGenerateMipMaps :: "bool option"
  optCreateMipMaps :: "bool option"
  optType :: "textureType option"
  optSamplingMode :: "samplingMode option"
  optFormat :: "textureFormat option"
  optUseSRGBBuffer :: "bool option"
  optSamples :: "int option"
  optCreateMSAATexture :: "bool option"
  optComparisonFunction :: "int option"

datatype textureOptions = GenerateMipMaps bool | TextureOptions internalTextureCreationOptions

record resolvedTextureOptions =
  generateMipMaps :: bool
  createMipMaps :: bool
  textureType :: textureType
  samplingMode :: samplingMode
  format :: textureFormat
  useSRGBBuffer :: bool
  samples :: int
  createMSAATexture :: bool
  comparisonFunction :: int

text \<open>The fields of the capability record \<^verbatim>\<open>_caps\<close> used below.\<close>

record caps =
  uintIndices :: bool
  maxVertexAttribs :: nat
  textureFloat :: bool
  textureFloatLinearFiltering :: bool
  textureHalfFloatLinearFiltering :: bool
  supportSRGBBuffers :: bool

record engine =
  caps :: caps
  webGLVersion :: nat
  isWebGPU :: bool
  doNotHandleContextLost :: bool
  contextWasLost :: bool
  preventCacheWipeBetweenFrames :: bool
  vaoRecordInProgress :: bool
  mustWipeVertexAttributes :: bool
  cachedVertexArrayObject :: "nat option"
  currentBoundBuffer :: "bufferTarget \<Rightarrow> ref option option"
  cachedVertexBuffers :: "ref option"
  cachedEffectForVertexBuffers :: "ref option"
  cachedIndexBuffer :: "ref option"
  uintIndicesCurrentlySet :: bool
  currentProgram :: "nat option option"
  currentEffect :: "ref option"
  viewportCached :: "int \<times> int \<times> int \<times> int"
  vertexAttribArraysEnabled :: "bool list"
  currentBufferPointers :: "bufferPointer list"
  currentInstanceLocations :: "nat list"
  currentInstanceBuffers :: "ref list"
  boundTexturesCache :: "int \<Rightarrow> ref option option"
  activeChannel :: int
  currentTextureChannel :: int
  boundUniforms :: "int \<Rightarrow> ref option"
  uniformCurrentState :: "ref \<Rightarrow> int option"
  textures :: "ref \<Rightarrow> internalTexture"
  buffers :: "ref \<Rightarrow> dataBuffer"
  nextBuffer :: ref
  compiledEffects :: "string \<Rightarrow> ref option"
  effects :: "ref \<Rightarrow> effect"
  nextEffect :: ref
  colorWrite :: bool
  colorWriteChanged :: bool
  unpackFlipYCached :: "bool option"
  warnings :: "string list"
  gl :: "glcall list"

section \<open>Buffers: binding, creation, release\<close>

definition u_unbindVertexArrayObject :: "engine \<Rightarrow> engine" where
  "u_unbindVertexArrayObject e =
     (if cachedVertexArrayObject e = None then e
      else e\<lparr>cachedVertexArrayObject := None, gl := gl e @ [BindVertexArray None]\<rparr>)"

definition u_bindBuffer :: "engine \<Rightarrow> ref option \<Rightarrow> bufferTarget \<Rightarrow> engine" where
  "u_bindBuffer e b target =
     (if vaoRecordInProgress e \<or> currentBoundBuffer e target \<noteq> Some b
      then e\<lparr>currentBoundBuffer := (currentBoundBuffer e)(target := Some b),
             gl := gl e @ [BindBuffer target
                     (case b of None \<Rightarrow> None | Some r \<Rightarrow> Some (underlyingResource (buffers e r)))]\<rparr>
      else e)"

definition bindArrayBuffer :: "engine \<Rightarrow> ref option \<Rightarrow> engine" where
  "bindArrayBuffer e b =
     u_bindBuffer (if \<not> vaoRecordInProgress e then u_unbindVertexArrayObject e else e)
       b ARRAY_BUFFER"

definition bindIndexBuffer :: "engine \<Rightarrow> ref option \<Rightarrow> engine" where
  "bindIndexBuffer e b =
     u_bindBuffer (if \<not> vaoRecordInProgress e then u_unbindVertexArrayObject e else e)
       b ELEMENT_ARRAY_BUFFER"

definition u_resetVertexBufferBinding :: "engine \<Rightarrow> engine" where
  "u_resetVertexBufferBinding e = (bindArrayBuffer e None)\<lparr>cachedVertexBuffers := None\<rparr>"

definition u_resetIndexBufferBinding :: "engine \<Rightarrow> engine" where
  "u_resetIndexBufferBinding e = (bindIndexBuffer e None)\<lparr>cachedIndexBuffer := None\<rparr>"

text \<open>
  \<^verbatim>\<open>new WebGLDataBuffer(vbo)\<close>: a new object, at the next free reference, wrapping the
  driver's buffer; the counters of a new \<^verbatim>\<open>DataBuffer\<close> are zero.
\<close>

definition new_WebGLDataBuffer :: "engine \<Rightarrow> nat \<Rightarrow> ref \<times> engine" where
  "new_WebGLDataBuffer e vbo =
     (nextBuffer e,
      e\<lparr>buffers := (buffers e)(nextBuffer e :=
            \<lparr>underlyingResource = vbo, references = 0, capacity = 0, is32Bits = False\<rparr>),
        nextBuffer := Suc (nextBuffer e)\<rparr>)"

definition BYTES_PER_ELEMENT :: "elementArray \<Rightarrow> nat" where
  "BYTES_PER_ELEMENT a = (case a of Uint16Array _ \<Rightarrow> 2 | Uint32Array _ \<Rightarrow> 4)"

definition byteLength :: "elementArray \<Rightarrow> nat" where
  "byteLength a = (case a of Uint16Array xs \<Rightarrow> 2 * length xs | Uint32Array xs \<Rightarrow> 4 * length xs)"

text \<open>
  \<^verbatim>\<open>new Uint16Array(indices)\<close> and \<^verbatim>\<open>new Uint32Array(indices)\<close> convert each number
  modulo \<open>2^16\<close> and \<open>2^32\<close>.
\<close>

fun numbers :: "indicesArray \<Rightarrow> int list" where
  "numbers (NumberArray xs) = xs"
| "numbers (Int32Array ws) = map sint ws"
| "numbers (Typed (Uint16Array ws)) = map uint ws"
| "numbers (Typed (Uint32Array ws)) = map uint ws"

definition new_Uint16Array :: "indicesArray \<Rightarrow> elementArray" where
  "new_Uint16Array indices = Uint16Array (map word_of_int (numbers indices))"

definition new_Uint32Array :: "indicesArray \<Rightarrow> elementArray" where
  "new_Uint32Array indices = Uint32Array (map word_of_int (numbers indices))"

text \<open>The \<^verbatim>\<open>for\<close> loop of \<^verbatim>\<open>_normalizeIndexData\<close> over the numbers still to visit.\<close>

fun normalizeLoop :: "indicesArray \<Rightarrow> int list \<Rightarrow> elementArray" where
  "normalizeLoop indices [] = new_Uint16Array indices"
| "normalizeLoop indices (x # rest) =
     (if x \<ge> 65535 then new_Uint32Array indices else normalizeLoop indices rest)"

definition u_normalizeIndexData :: "engine \<Rightarrow> indicesArray \<Rightarrow> elementArray" where
  "u_normalizeIndexData e indices =
     (case indices of
        Typed (Uint16Array ws) \<Rightarrow> Uint16Array ws
      | _ \<Rightarrow>
        if uintIndices (caps e) then
          (case indices of
             Typed (Uint32Array ws) \<Rightarrow> Uint32Array ws
           | _ \<Rightarrow> normalizeLoop indices (numbers indices))
        else new_Uint16Array indices)"

definition u_createVertexBuffer ::
  "engine \<Rightarrow> vertexData \<Rightarrow> usage \<Rightarrow> nat option \<Rightarrow> error + (engine \<times> ref)" where
  "u_createVertexBuffer e vdata usg vbo =
     (case vbo of
        None \<Rightarrow> Inl (Error ''Unable to create vertex buffer'')
      | Some v \<Rightarrow>
         (let (dataBuffer, e1) = new_WebGLDataBuffer e v;
              e2 = bindArrayBuffer e1 (Some dataBuffer);
              n = (case vdata of DataNumbers len \<Rightarrow> len * 4
                               | DataBinary bytes \<Rightarrow> bytes
                               | DataSize sz \<Rightarrow> sz);
              e3 = e2\<lparr>buffers := (buffers e2)(dataBuffer :=
                          (buffers e2 dataBuffer)\<lparr>capacity := int n\<rparr>),
                      gl := gl e2 @ [BufferData ARRAY_BUFFER (Bytes n) usg]\<rparr>;
              e4 = u_resetVertexBufferBinding e3;
              e5 = e4\<lparr>buffers := (buffers e4)(dataBuffer :=
                          (buffers e4 dataBuffer)\<lparr>references := 1\<rparr>)\<rparr>
          in Inr (e5, dataBuffer)))"

text \<open>
  The result of \<^verbatim>\<open>this._gl.createBuffer()\<close> is the driver's answer and is an argument
  \<open>vbo\<close> of the creation functions (\<open>None\<close> when the driver returns \<^verbatim>\<open>null\<close>).
\<close>

definition createVertexBuffer :: "engine \<Rightarrow> vertexData \<Rightarrow> nat option \<Rightarrow> error + (engine \<times> ref)" where
  "createVertexBuffer e vdata vbo = u_createVertexBuffer e vdata STATIC_DRAW vbo"

definition createDynamicVertexBuffer :: "engine \<Rightarrow> vertexData \<Rightarrow> nat option \<Rightarrow> error + (engine \<times> ref)" where
  "createDynamicVertexBuffer e vdata vbo = u_createVertexBuffer e vdata DYNAMIC_DRAW vbo"

definition createIndexBuffer ::
  "engine \<Rightarrow> indicesArray \<Rightarrow> bool \<Rightarrow> nat option \<Rightarrow> error + (engine \<times> ref)" where
  "createIndexBuffer e indices updatable vbo =
     (case vbo of
        None \<Rightarrow> Inl (Error ''Unable to create index buffer'')
      | Some v \<Rightarrow>
         (let (dataBuffer, e1) = new_WebGLDataBuffer e v;
              e2 = bindIndexBuffer e1 (Some dataBuffer);
              idata = u_normalizeIndexData e2 indices;
              e3 = e2\<lparr>gl := gl e2 @ [BufferData ELEMENT_ARRAY_BUFFER (Elements idata)
                                        (if updatable then DYNAMIC_DRAW else STATIC_DRAW)]\<rparr>;
              e4 = u_resetIndexBufferBinding e3;
              e5 = e4\<lparr>buffers := (buffers e4)(dataBuffer :=
                          (buffers e4 dataBuffer)\<lparr>references := 1,
                             is32Bits := (BYTES_PER_ELEMENT idata = 4)\<rparr>)\<rparr>
          in Inr (e5, dataBuffer)))"

definition u_deleteBuffer :: "engine \<Rightarrow> ref \<Rightarrow> engine" where
  "u_deleteBuffer e b = e\<lparr>gl := gl e @ [DeleteBuffer (underlyingResource (buffers e b))]\<rparr>"

definition u_releaseBuffer :: "engine \<Rightarrow> ref \<Rightarrow> engine \<times> bool" where
  "u_releaseBuffer e b =
     (let e1 = e\<lparr>buffers := (buffers e)(b :=
                    (buffers e b)\<lparr>references := references (buffers e b) - 1\<rparr>)\<rparr>
      in if references (buffers e1 b) = 0 then (u_deleteBuffer e1 b, True) else (e1, False))"

text \<open>
  A second consumer attaching a buffer increments \<^verbatim>\<open>references\<close> (done by the owners of
  the buffer, outside the engine file).
\<close>

definition addReference :: "engine \<Rightarrow> ref \<Rightarrow> engine" where
  "addReference e b =
     e\<lparr>buffers := (buffers e)(b := (buffers e b)\<lparr>references := references (buffers e b) + 1\<rparr>)\<rparr>"

text \<open>The driver calls that an operation taking \<open>e\<close> to \<open>e'\<close> has issued.\<close>

definition issued :: "engine \<Rightarrow> engine \<Rightarrow> glcall list" where
  "issued e e' = drop (length (gl e)) (gl e')"

section \<open>Program and texture binding\<close>

text \<open>
  \<^verbatim>\<open>_setProgram(program, this._gl)\<close> is imported from thinEngine.functions, which is not
  under src: it is the driver's call that makes \<open>program\<close> current, \<open>UseProgram\<close> here.
\<close>

definition u_setProgram :: "engine \<Rightarrow> nat option \<Rightarrow> engine" where
  "u_setProgram e program =
     (if currentProgram e \<noteq> Some program
      then e\<lparr>currentProgram := Some program, gl := gl e @ [UseProgram program]\<rparr>
      else e)"

definition TEXTURE0 :: int where
  "TEXTURE0 = 33984"

definition u_activateCurrentTexture :: "engine \<Rightarrow> engine" where
  "u_activateCurrentTexture e =
     (if currentTextureChannel e \<noteq> activeChannel e
      then e\<lparr>currentTextureChannel := activeChannel e,
             gl := gl e @ [ActiveTexture (TEXTURE0 + activeChannel e)]\<rparr>
      else e)"

definition u_bindSamplerUniformToChannel :: "engine \<Rightarrow> int \<Rightarrow> int \<Rightarrow> engine" where
  "u_bindSamplerUniformToChannel e sourceSlot destination =
     (case boundUniforms e sourceSlot of
        None \<Rightarrow> e
      | Some uniform \<Rightarrow>
          if uniformCurrentState e uniform = Some destination then e
          else e\<lparr>uniformCurrentState := (uniformCurrentState e)(uniform := Some destination),
                 gl := gl e @ [Uniform1i uniform destination]\<rparr>)"

text \<open>
  \<^verbatim>\<open>_bindTextureDirectly(target, texture, forTextureDataUpdate, force)\<close>. The result
  holds the new state and \<^verbatim>\<open>wasPreviouslyBound\<close>; the \<^verbatim>\<open>throw\<close> for a multiview texture
  is the \<open>Inl\<close> branch.
\<close>

definition u_bindTextureDirectly ::
  "engine \<Rightarrow> nat \<Rightarrow> ref option \<Rightarrow> bool \<Rightarrow> bool \<Rightarrow> error + (engine \<times> bool)" where
  "u_bindTextureDirectly e target texture forTextureDataUpdate force =
     (let isTextureForRendering =
            (case texture of None \<Rightarrow> False
                           | Some t \<Rightarrow> associatedChannel (textures e t) > - 1);
          e1 = (case texture of
                  None \<Rightarrow> e
                | Some t \<Rightarrow>
                    if forTextureDataUpdate \<and> isTextureForRendering
                    then e\<lparr>activeChannel := associatedChannel (textures e t)\<rparr> else e);
          currentTextureBound = boundTexturesCache e1 (activeChannel e1);
          bound =
            (if currentTextureBound \<noteq> Some texture \<or> force then
               (let e2 = u_activateCurrentTexture e1 in
                case texture of
                  None \<Rightarrow>
                    Inr (e2\<lparr>boundTexturesCache :=
                               (boundTexturesCache e2)(activeChannel e2 := Some None),
                             gl := gl e2 @ [BindTexture target None]\<rparr>, False)
                | Some t \<Rightarrow>
                    if isMultiview (textures e2 t)
                    then Inl (Thrown ''_bindTextureDirectly called with a multiview texture!'')
                    else Inr (e2\<lparr>boundTexturesCache :=
                                    (boundTexturesCache e2)(activeChannel e2 := Some (Some t)),
                                  textures := (textures e2)(t :=
                                    (textures e2 t)\<lparr>associatedChannel := activeChannel e2\<rparr>),
                                  gl := gl e2 @ [BindTexture target (hardwareTexture (textures e2 t))]\<rparr>,
                              False))
             else if forTextureDataUpdate then Inr (u_activateCurrentTexture e1, True)
             else Inr (e1, False))
      in case bound of
           Inl err \<Rightarrow> Inl err
         | Inr (e3, wasPreviouslyBound) \<Rightarrow>
             (case texture of
                None \<Rightarrow> Inr (e3, wasPreviouslyBound)
              | Some t \<Rightarrow>
                  if isTextureForRendering \<and> \<not> forTextureDataUpdate
                  then Inr (u_bindSamplerUniformToChannel e3
                              (associatedChannel (textures e3 t)) (activeChannel e3),
                            wasPreviouslyBound)
                  else Inr (e3, wasPreviouslyBound)))"

section \<open>Vertex attributes and vertex buffers\<close>

text \<open>
  A write \<^verbatim>\<open>array[i] = v\<close> on the JavaScript array \<^verbatim>\<open>_vertexAttribArraysEnabled\<close>: past
  the end it extends the array; the holes read as \<^verbatim>\<open>undefined\<close>, which every reader of
  this array treats as \<^verbatim>\<open>false\<close>.
\<close>

definition jsArraySet :: "bool list \<Rightarrow> nat \<Rightarrow> bool \<Rightarrow> bool list" where
  "jsArraySet xs i v =
     (if i < length xs then xs[i := v] else xs @ replicate (i - length xs) False @ [v])"

text \<open>
  \<^verbatim>\<open>disableAttributeByIndex\<close>: the last statement reads \<^verbatim>\<open>_currentBufferPointers[i]\<close> and
  writes its field, which is a \<^verbatim>\<open>TypeError\<close> where the array has no such pointer.
\<close>

definition disableAttributeByIndex :: "engine \<Rightarrow> nat \<Rightarrow> error + engine" where
  "disableAttributeByIndex e attributeLocation =
     (let e1 = e\<lparr>vertexAttribArraysEnabled :=
                    jsArraySet (vertexAttribArraysEnabled e) attributeLocation False,
                  gl := gl e @ [DisableVertexAttribArray attributeLocation]\<rparr>
      in if attributeLocation < length (currentBufferPointers e1)
         then Inr (e1\<lparr>currentBufferPointers := (currentBufferPointers e1)
                 [attributeLocation :=
                    (currentBufferPointers e1 ! attributeLocation)\<lparr>active := False\<rparr>]\<rparr>)
         else Inl TypeError)"

text \<open>The two loops of \<^verbatim>\<open>unbindAllAttributes\<close>, over the indices still to visit.\<close>

fun wipeLoop :: "engine \<Rightarrow> nat list \<Rightarrow> error + engine" where
  "wipeLoop e [] = Inr e"
| "wipeLoop e (i # rest) =
     (case disableAttributeByIndex e i of
        Inl err \<Rightarrow> Inl err
      | Inr e1 \<Rightarrow> wipeLoop e1 rest)"

fun unbindLoop :: "engine \<Rightarrow> nat list \<Rightarrow> error + engine" where
  "unbindLoop e [] = Inr e"
| "unbindLoop e (i # rest) =
     (if i \<ge> maxVertexAttribs (caps e) \<or> i \<ge> length (vertexAttribArraysEnabled e)
          \<or> \<not> vertexAttribArraysEnabled e ! i
      then unbindLoop e rest
      else case disableAttributeByIndex e i of
             Inl err \<Rightarrow> Inl err
           | Inr e1 \<Rightarrow> unbindLoop e1 rest)"

definition unbindAllAttributes :: "engine \<Rightarrow> error + engine" where
  "unbindAllAttributes e =
     (if mustWipeVertexAttributes e
      then wipeLoop (e\<lparr>mustWipeVertexAttributes := False\<rparr>) [0 ..< maxVertexAttribs (caps e)]
      else unbindLoop e [0 ..< length (vertexAttribArraysEnabled e)])"

definition GL_INT :: int where
  "GL_INT = 5124"

definition GL_UNSIGNED_INT :: int where
  "GL_UNSIGNED_INT = 5125"

definition u_vertexAttribPointer ::
  "engine \<Rightarrow> ref \<Rightarrow> nat \<Rightarrow> int \<Rightarrow> int \<Rightarrow> bool \<Rightarrow> int \<Rightarrow> int \<Rightarrow> engine" where
  "u_vertexAttribPointer e buf indx sz ty norm strd offs =
     (if indx \<ge> length (currentBufferPointers e) then e
      else
        (let pointer = currentBufferPointers e ! indx;
             changed = (\<not> active pointer \<or> buffer pointer \<noteq> buf \<or> size_attr pointer \<noteq> sz
                        \<or> type pointer \<noteq> ty \<or> normalized pointer \<noteq> norm
                        \<or> stride pointer \<noteq> strd \<or> offset pointer \<noteq> offs);
             pointer' =
               (if \<not> active pointer
                then pointer\<lparr>active := True, index := indx, size_attr := sz, type := ty,
                       normalized := norm, stride := strd, offset := offs, buffer := buf\<rparr>
                else pointer\<lparr>buffer := buf, size_attr := sz, type := ty,
                       normalized := norm, stride := strd, offset := offs\<rparr>);
             e1 = e\<lparr>currentBufferPointers := (currentBufferPointers e)[indx := pointer']\<rparr>
         in if changed \<or> vaoRecordInProgress e1 then
              (let e2 = bindArrayBuffer e1 (Some buf)
               in if ty = GL_UNSIGNED_INT \<or> ty = GL_INT
                  then e2\<lparr>gl := gl e2 @ [VertexAttribIPointer indx sz ty strd offs]\<rparr>
                  else e2\<lparr>gl := gl e2 @ [VertexAttribPointer indx sz ty norm strd offs]\<rparr>)
            else e1))"

definition u_bindIndexBufferWithCache :: "engine \<Rightarrow> ref option \<Rightarrow> engine" where
  "u_bindIndexBufferWithCache e indexBuffer =
     (case indexBuffer of
        None \<Rightarrow> e
      | Some b \<Rightarrow>
          if cachedIndexBuffer e \<noteq> Some b
          then (bindIndexBuffer (e\<lparr>cachedIndexBuffer := Some b\<rparr>) (Some b))
                 \<lparr>uintIndicesCurrentlySet := is32Bits (buffers e b)\<rparr>
          else e)"

text \<open>
  \<^verbatim>\<open>effect.getAttributeLocation(index)\<close> reads the array of locations of the effect; past
  its end the result is \<^verbatim>\<open>undefined\<close>, for which \<^verbatim>\<open>order >= 0\<close> is false.
\<close>

definition getAttributeLocation :: "effect \<Rightarrow> nat \<Rightarrow> int option" where
  "getAttributeLocation ef i =
     (if i < length (attributeLocations ef) then Some (attributeLocations ef ! i) else None)"

text \<open>
  One round of the loop of \<^verbatim>\<open>_bindVertexBuffersAttributes\<close>, for the attribute \<open>ai\<close> at
  \<open>index\<close>, and the loop over the attribute names still to visit.
\<close>

definition bindAttribute ::
  "engine \<Rightarrow> (string \<Rightarrow> vertexBuffer option) \<Rightarrow> effect
     \<Rightarrow> (string \<Rightarrow> vertexBuffer option) option \<Rightarrow> nat \<Rightarrow> string \<Rightarrow> engine" where
  "bindAttribute e vertexBuffers ef overrideVertexBuffers i ai =
     (case getAttributeLocation ef i of
        None \<Rightarrow> e
      | Some order \<Rightarrow>
          if order \<ge> 0 then
            (let vb0 = (case overrideVertexBuffers of None \<Rightarrow> None | Some ov \<Rightarrow> ov ai);
                 vb1 = (case vb0 of None \<Rightarrow> vertexBuffers ai | Some vb \<Rightarrow> Some vb)
             in case vb1 of
                  None \<Rightarrow> e
                | Some vb \<Rightarrow>
                   (let e1 = e\<lparr>gl := gl e @ [EnableVertexAttribArray (nat order)]\<rparr>;
                        e2 = (if \<not> vaoRecordInProgress e1
                              then e1\<lparr>vertexAttribArraysEnabled :=
                                     jsArraySet (vertexAttribArraysEnabled e1) (nat order) True\<rparr>
                              else e1)
                    in case getBuffer vb of
                         None \<Rightarrow> e2
                       | Some buf \<Rightarrow>
                          (let e3 = u_vertexAttribPointer e2 buf (nat order) (getSize vb)
                                      (vbType vb) (vbNormalized vb) (byteStride vb) (byteOffset vb)
                           in if getIsInstanced vb then
                                (let e4 = e3\<lparr>gl := gl e3 @
                                            [VertexAttribDivisor (nat order) (getInstanceDivisor vb)]\<rparr>
                                 in if \<not> vaoRecordInProgress e4
                                    then e4\<lparr>currentInstanceLocations :=
                                              currentInstanceLocations e4 @ [nat order],
                                            currentInstanceBuffers :=
                                              currentInstanceBuffers e4 @ [buf]\<rparr>
                                    else e4)
                              else e3)))
          else e)"

fun bindAttributesLoop ::
  "engine \<Rightarrow> (string \<Rightarrow> vertexBuffer option) \<Rightarrow> effect
     \<Rightarrow> (string \<Rightarrow> vertexBuffer option) option \<Rightarrow> nat \<Rightarrow> string list \<Rightarrow> engine" where
  "bindAttributesLoop e vertexBuffers ef overrideVertexBuffers i [] = e"
| "bindAttributesLoop e vertexBuffers ef overrideVertexBuffers i (ai # rest) =
     bindAttributesLoop (bindAttribute e vertexBuffers ef overrideVertexBuffers i ai)
       vertexBuffers ef overrideVertexBuffers (Suc i) rest"

definition u_bindVertexBuffersAttributes ::
  "engine \<Rightarrow> (string \<Rightarrow> vertexBuffer option) \<Rightarrow> ref
     \<Rightarrow> (string \<Rightarrow> vertexBuffer option) option \<Rightarrow> error + engine" where
  "u_bindVertexBuffersAttributes e vertexBuffers effectRef overrideVertexBuffers =
     (let ef = effects e effectRef;
          e1 = (if \<not> vaoRecordInProgress e then u_unbindVertexArrayObject e else e)
      in case unbindAllAttributes e1 of
           Inl err \<Rightarrow> Inl err
         | Inr e2 \<Rightarrow>
             Inr (bindAttributesLoop e2 vertexBuffers ef overrideVertexBuffers 0
                    (attributesNames ef)))"

text \<open>
  \<^verbatim>\<open>bindBuffers\<close>. The dictionary \<^verbatim>\<open>vertexBuffers\<close> is compared by identity with the
  cached one, so it comes with its reference \<open>vbRef\<close>.
\<close>

definition bindBuffers ::
  "engine \<Rightarrow> ref \<Rightarrow> (string \<Rightarrow> vertexBuffer option) \<Rightarrow> ref option \<Rightarrow> ref
     \<Rightarrow> (string \<Rightarrow> vertexBuffer option) option \<Rightarrow> error + engine" where
  "bindBuffers e vbRef vertexBuffers indexBuffer effectRef overrideVertexBuffers =
     (case (if cachedVertexBuffers e \<noteq> Some vbRef
               \<or> cachedEffectForVertexBuffers e \<noteq> Some effectRef
            then u_bindVertexBuffersAttributes
                   (e\<lparr>cachedVertexBuffers := Some vbRef,
                      cachedEffectForVertexBuffers := Some effectRef\<rparr>)
                   vertexBuffers effectRef overrideVertexBuffers
            else Inr e) of
        Inl err \<Rightarrow> Inl err
      | Inr e1 \<Rightarrow> Inr (u_bindIndexBufferWithCache e1 indexBuffer))"

section \<open>Wiping the caches\<close>

text \<open>
  Modelled from the spec: \<^verbatim>\<open>resetTextureCache\<close> is inherited from the abstract engine,
  which is not under src. The spec has the wipe reset every cached value to an unset
  sentinel: every texture slot becomes \<^verbatim>\<open>undefined\<close> and no channel is the current one.
\<close>

definition resetTextureCache :: "engine \<Rightarrow> engine" where
  "resetTextureCache e = e\<lparr>boundTexturesCache := (\<lambda>_. None), currentTextureChannel := - 1\<rparr>"

text \<open>
  \<^verbatim>\<open>wipeCaches(bruteForce)\<close>. The stencil, depth and alpha state objects that the brute
  force branch resets are objects outside this state; their \<^verbatim>\<open>reset\<close> issues no driver
  call.
\<close>

definition wipeCaches :: "engine \<Rightarrow> bool \<Rightarrow> error + engine" where
  "wipeCaches e bruteForce =
     (if preventCacheWipeBetweenFrames e \<and> \<not> bruteForce then Inr e
      else
        (let e1 = u_unbindVertexArrayObject
                    (e\<lparr>currentEffect := None, viewportCached := (0, 0, 0, 0)\<rparr>);
             finish = (\<lambda>e3. bindIndexBuffer
                        ((u_resetVertexBufferBinding e3)
                           \<lparr>cachedIndexBuffer := None, cachedEffectForVertexBuffers := None\<rparr>)
                        None)
         in if bruteForce then
              (let e2 = (resetTextureCache (e1\<lparr>currentProgram := Some None\<rparr>))
                          \<lparr>colorWrite := True, colorWriteChanged := True,
                           unpackFlipYCached := None\<rparr>;
                   e2' = e2\<lparr>mustWipeVertexAttributes := True,
                            gl := gl e2 @ [PixelStorei UNPACK_COLORSPACE_CONVERSION_WEBGL 0,
                                           PixelStorei UNPACK_PREMULTIPLY_ALPHA_WEBGL 0]\<rparr>
               in case unbindAllAttributes e2' of
                    Inl err \<Rightarrow> Inl err
                  | Inr e3 \<Rightarrow> Inr (finish e3))
            else Inr (finish e1)))"

section \<open>Drawing and context loss\<close>

text \<open>
  \<^verbatim>\<open>applyStates\<close> first applies the depth, stencil and alpha state objects, whose classes
  are not under src: the driver calls they issue are the argument \<open>stateCalls\<close>.
  \<^verbatim>\<open>_reportDrawCall\<close> only feeds a performance counter kept outside this state.
\<close>

definition applyStates :: "engine \<Rightarrow> glcall list \<Rightarrow> engine" where
  "applyStates e stateCalls =
     (let e1 = e\<lparr>gl := gl e @ stateCalls\<rparr>
      in if colorWriteChanged e1
         then e1\<lparr>colorWriteChanged := False,
                 gl := gl e1 @ [ColorMask (colorWrite e1) (colorWrite e1) (colorWrite e1)
                                  (colorWrite e1)]\<rparr>
         else e1)"

fun u_drawMode :: "fillMode \<Rightarrow> drawMode" where
  "u_drawMode MATERIAL_TriangleFillMode = TRIANGLES"
| "u_drawMode MATERIAL_PointFillMode = POINTS"
| "u_drawMode MATERIAL_WireFrameFillMode = LINES"
| "u_drawMode MATERIAL_PointListDrawMode = POINTS"
| "u_drawMode MATERIAL_LineListDrawMode = LINES"
| "u_drawMode MATERIAL_LineLoopDrawMode = LINE_LOOP"
| "u_drawMode MATERIAL_LineStripDrawMode = LINE_STRIP"
| "u_drawMode MATERIAL_TriangleStripDrawMode = TRIANGLE_STRIP"
| "u_drawMode MATERIAL_TriangleFanDrawMode = TRIANGLE_FAN"
| "u_drawMode (OtherFillMode _) = TRIANGLES"

text \<open>
  An optional count \<^verbatim>\<open>instancesCount\<close> is truthy when it is given and not zero.
\<close>

definition drawElementsType ::
  "engine \<Rightarrow> glcall list \<Rightarrow> fillMode \<Rightarrow> int \<Rightarrow> int \<Rightarrow> int option \<Rightarrow> engine" where
  "drawElementsType e stateCalls fillMode indexStart indexCount instancesCount =
     (let e1 = applyStates e stateCalls;
          drawMode = u_drawMode fillMode;
          indexFormat = (if uintIndicesCurrentlySet e1 then UNSIGNED_INT else UNSIGNED_SHORT);
          mult = (if uintIndicesCurrentlySet e1 then 4 else 2)
      in case instancesCount of
           Some k \<Rightarrow>
             if k \<noteq> 0
             then e1\<lparr>gl := gl e1 @ [DrawElementsInstanced drawMode indexCount indexFormat
                                      (indexStart * mult) k]\<rparr>
             else e1\<lparr>gl := gl e1 @ [DrawElements drawMode indexCount indexFormat
                                      (indexStart * mult)]\<rparr>
         | None \<Rightarrow> e1\<lparr>gl := gl e1 @ [DrawElements drawMode indexCount indexFormat
                                      (indexStart * mult)]\<rparr>)"

definition drawArraysType ::
  "engine \<Rightarrow> glcall list \<Rightarrow> fillMode \<Rightarrow> int \<Rightarrow> int \<Rightarrow> int option \<Rightarrow> engine" where
  "drawArraysType e stateCalls fillMode verticesStart verticesCount instancesCount =
     (let e1 = applyStates e stateCalls;
          drawMode = u_drawMode fillMode
      in case instancesCount of
           Some k \<Rightarrow>
             if k \<noteq> 0
             then e1\<lparr>gl := gl e1 @ [DrawArraysInstanced drawMode verticesStart verticesCount k]\<rparr>
             else e1\<lparr>gl := gl e1 @ [DrawArrays drawMode verticesStart verticesCount]\<rparr>
         | None \<Rightarrow> e1\<lparr>gl := gl e1 @ [DrawArrays drawMode verticesStart verticesCount]\<rparr>)"

text \<open>
  The handler \<^verbatim>\<open>_onContextLost\<close> installed by the constructor. \<^verbatim>\<open>deleteStateObject\<close> and
  the observers act outside this state.
\<close>

definition u_onContextLost :: "engine \<Rightarrow> engine" where
  "u_onContextLost e =
     (if \<not> doNotHandleContextLost e
      then e\<lparr>contextWasLost := True, warnings := warnings e @ [''WebGL context lost.'']\<rparr>
      else e)"

section \<open>Effects\<close>

text \<open>The operator \<^verbatim>\<open>a || b\<close> on optional strings: the empty string is falsy too.\<close>

definition orElse :: "string option \<Rightarrow> string option \<Rightarrow> string option" where
  "orElse a b = (case a of None \<Rightarrow> b | Some s \<Rightarrow> if s = [] then b else Some s)"

text \<open>String concatenation turns \<^verbatim>\<open>undefined\<close> into the text \<^verbatim>\<open>undefined\<close>.\<close>

definition jsString :: "string option \<Rightarrow> string" where
  "jsString a = (case a of None \<Rightarrow> ''undefined'' | Some s \<Rightarrow> s)"

text \<open>
  Modelled from the spec: the class \<^verbatim>\<open>Effect\<close> is not under src. A new effect is a new
  object that records the key it was created under and its attribute names, and counts
  its first consumer.
\<close>

definition new_Effect :: "engine \<Rightarrow> string \<Rightarrow> string list \<Rightarrow> ref \<times> engine" where
  "new_Effect e name attrs =
     (nextEffect e,
      e\<lparr>effects := (effects e)(nextEffect e :=
            \<lparr>key = name, refCount = 1, attributesNames = attrs, attributeLocations = []\<rparr>),
        nextEffect := Suc (nextEffect e)\<rparr>)"

definition vertexOf :: "baseName \<Rightarrow> string" where
  "vertexOf b =
     (case b of
        BaseName s \<Rightarrow> s
      | ShaderPath sp \<Rightarrow>
          jsString (orElse (vertexToken sp) (orElse (vertexSource sp)
                      (orElse (vertexElement sp) (vertex sp)))))"

definition fragmentOf :: "baseName \<Rightarrow> string" where
  "fragmentOf b =
     (case b of
        BaseName s \<Rightarrow> s
      | ShaderPath sp \<Rightarrow>
          jsString (orElse (fragmentToken sp) (orElse (fragmentSource sp)
                      (orElse (fragmentElement sp) (fragment sp)))))"

text \<open>
  \<^verbatim>\<open>fullDefines\<close>: the \<^verbatim>\<open>defines\<close> argument, else the \<^verbatim>\<open>defines\<close> of the options, else
  the empty string, followed by the global defines when they are not empty. The global
  defines are the result of \<^verbatim>\<open>_getGlobalDefines()\<close>, whose body \<^verbatim>\<open>_GetGlobalDefines\<close> is
  not under src: they are the argument \<open>globalDefines\<close>.
\<close>

definition fullDefinesOf :: "string \<Rightarrow> attributesNamesOrOptions \<Rightarrow> string option \<Rightarrow> string" where
  "fullDefinesOf globalDefines attributesNamesOrOptions definesArg =
     (let d = (case definesArg of
                 Some s \<Rightarrow> s
               | None \<Rightarrow>
                  (case attributesNamesOrOptions of
                     AttributesNames _ \<Rightarrow> []
                   | Options opts \<Rightarrow> (case optDefines opts of Some s \<Rightarrow> s | None \<Rightarrow> [])))
      in if globalDefines \<noteq> [] then d @ globalDefines else d)"

definition effectName :: "string \<Rightarrow> baseName \<Rightarrow> attributesNamesOrOptions \<Rightarrow> string option \<Rightarrow> string" where
  "effectName globalDefines b attributesNamesOrOptions definesArg =
     vertexOf b @ ''+'' @ fragmentOf b @ ''@''
       @ fullDefinesOf globalDefines attributesNamesOrOptions definesArg"

text \<open>
  \<^verbatim>\<open>createEffect\<close>. The callback \<^verbatim>\<open>onCompiled\<close>, which a hit may invoke, and the
  compilation started by a new effect act outside this state.
\<close>

definition createEffect ::
  "engine \<Rightarrow> string \<Rightarrow> baseName \<Rightarrow> attributesNamesOrOptions \<Rightarrow> string option \<Rightarrow> engine \<times> ref" where
  "createEffect e globalDefines b attributesNamesOrOptions definesArg =
     (let name = effectName globalDefines b attributesNamesOrOptions definesArg
      in case compiledEffects e name of
           Some compiledEffect \<Rightarrow>
             (e\<lparr>effects := (effects e)(compiledEffect :=
                    (effects e compiledEffect)\<lparr>refCount := refCount (effects e compiledEffect) + 1\<rparr>)\<rparr>,
              compiledEffect)
         | None \<Rightarrow>
             (let (ef, e1) = new_Effect e name
                    (case attributesNamesOrOptions of
                       AttributesNames names \<Rightarrow> names
                     | Options opts \<Rightarrow> attributes opts)
              in (e1\<lparr>compiledEffects := (compiledEffects e1)(name := Some ef)\<rparr>, ef)))"

section \<open>Texture creation options\<close>

text \<open>
  The first part of \<^verbatim>\<open>_createInternalTexture\<close>, up to the checks of the floating-point
  capabilities: the options are read with their defaults, then adjusted to the capability
  record. \<^verbatim>\<open>Logger.Warn\<close> appends to \<open>warnings\<close>. Nothing in this part throws.
\<close>

definition orDefault :: "'a option \<Rightarrow> 'a \<Rightarrow> 'a" where
  "orDefault a d = (case a of None \<Rightarrow> d | Some v \<Rightarrow> v)"

definition readTextureOptions :: "textureOptions \<Rightarrow> resolvedTextureOptions" where
  "readTextureOptions options =
     (case options of
        TextureOptions opts \<Rightarrow>
          \<lparr>generateMipMaps = orDefault (optGenerateMipMaps opts) False,
           createMipMaps = orDefault (optCreateMipMaps opts) False,
           textureType = orDefault (optType opts) TEXTURETYPE_UNSIGNED_BYTE,
           samplingMode = orDefault (optSamplingMode opts) TEXTURE_TRILINEAR_SAMPLINGMODE,
           format = orDefault (optFormat opts) TEXTUREFORMAT_RGBA,
           useSRGBBuffer = orDefault (optUseSRGBBuffer opts) False,
           samples = orDefault (optSamples opts) 1,
           createMSAATexture = orDefault (optCreateMSAATexture opts) False,
           comparisonFunction = orDefault (optComparisonFunction opts) 0\<rparr>
      | GenerateMipMaps g \<Rightarrow>
          \<lparr>generateMipMaps = g,
           createMipMaps = False,
           textureType = TEXTURETYPE_UNSIGNED_BYTE,
           samplingMode = TEXTURE_TRILINEAR_SAMPLINGMODE,
           format = TEXTUREFORMAT_RGBA,
           useSRGBBuffer = False,
           samples = 1,
           createMSAATexture = False,
           comparisonFunction = 0\<rparr>)"

definition u_createInternalTexture_options ::
  "engine \<Rightarrow> textureOptions \<Rightarrow> engine \<times> resolvedTextureOptions" where
  "u_createInternalTexture_options e options =
     (let r0 = readTextureOptions options;
          r1 = r0\<lparr>useSRGBBuffer := (useSRGBBuffer r0 \<and> supportSRGBBuffers (caps e)
                                       \<and> (webGLVersion e > 1 \<or> isWebGPU e))\<rparr>;
          r2 = (if textureType r1 = TEXTURETYPE_FLOAT \<and> \<not> textureFloatLinearFiltering (caps e)
                then r1\<lparr>samplingMode := TEXTURE_NEAREST_SAMPLINGMODE\<rparr>
                else if textureType r1 = TEXTURETYPE_HALF_FLOAT
                        \<and> \<not> textureHalfFloatLinearFiltering (caps e)
                then r1\<lparr>samplingMode := TEXTURE_NEAREST_SAMPLINGMODE\<rparr>
                else r1)
      in if textureType r2 = TEXTURETYPE_FLOAT \<and> \<not> textureFloat (caps e)
         then (e\<lparr>warnings := warnings e @
                   [''Float textures are not supported. Type forced to TEXTURETYPE_UNSIGNED_BYTE'']\<rparr>,
               r2\<lparr>textureType := TEXTURETYPE_UNSIGNED_BYTE\<rparr>)
         else (e, r2))"

section \<open>Classifying driver calls\<close>

fun isDisable :: "glcall \<Rightarrow> bool" where
  "isDisable (DisableVertexAttribArray _) = True"
| "isDisable _ = False"

fun isElementArrayBind :: "glcall \<Rightarrow> bool" where
  "isElementArrayBind (BindBuffer ELEMENT_ARRAY_BUFFER _) = True"
| "isElementArrayBind _ = False"

text \<open>
  An operation taking \<open>e\<close> to \<open>e'\<close> keeps the index binding when it leaves the cached index
  buffer, the index width flag and the cached element array binding as they are, and
  issues no bind on the element array target.
\<close>

definition keepsIndexBinding :: "engine \<Rightarrow> engine \<Rightarrow> bool" where
  "keepsIndexBinding e e' \<longleftrightarrow>
     cachedIndexBuffer e' = cachedIndexBuffer e
   \<and> uintIndicesCurrentlySet e' = uintIndicesCurrentlySet e
   \<and> currentBoundBuffer e' ELEMENT_ARRAY_BUFFER = currentBoundBuffer e ELEMENT_ARRAY_BUFFER
   \<and> vaoRecordInProgress e' = vaoRecordInProgress e
   \<and> (\<exists>cs. gl e' = gl e @ cs \<and> filter isElementArrayBind cs = [])"

section \<open>The table of compiled effects\<close>

text \<open>
  The invariant of \<^verbatim>\<open>_compiledEffects\<close>: every effect in the table was created under the
  key it is stored at, and is an object that exists. It holds in a new engine and
  \<^verbatim>\<open>createEffect\<close> keeps it.
\<close>

definition effectsWellFormed :: "engine \<Rightarrow> bool" where
  "effectsWellFormed e \<longleftrightarrow>
     (\<forall>name r. compiledEffects e name = Some r \<longrightarrow>
        key (effects e r) = name \<and> r < nextEffect e)"

section \<open>A freshly constructed engine\<close>

text \<open>
  The field initialisers of the class, for a given capability record: nothing is bound,
  every cache slot is still \<^verbatim>\<open>undefined\<close>, the context has received no call, and one
  \<^verbatim>\<open>BufferPointer\<close> exists per vertex attribute.
\<close>

definition newEngine :: "caps \<Rightarrow> engine" where
  "newEngine c =
     \<lparr>caps = c,
      webGLVersion = (if uintIndices c then 2 else 1),
      isWebGPU = False,
      doNotHandleContextLost = False,
      contextWasLost = False,
      preventCacheWipeBetweenFrames = False,
      vaoRecordInProgress = False,
      mustWipeVertexAttributes = False,
      cachedVertexArrayObject = None,
      currentBoundBuffer = (\<lambda>_. None),
      cachedVertexBuffers = None,
      cachedEffectForVertexBuffers = None,
      cachedIndexBuffer = None,
      uintIndicesCurrentlySet = False,
      currentProgram = None,
      currentEffect = None,
      viewportCached = (0, 0, 0, 0),
      vertexAttribArraysEnabled = [],
      currentBufferPointers = replicate (maxVertexAttribs c)
         \<lparr>active = False, index = 0, size_attr = 0, type = 0, normalized = False,
          stride = 0, offset = 0, buffer = 0\<rparr>,
      currentInstanceLocations = [],
      currentInstanceBuffers = [],
      boundTexturesCache = (\<lambda>_. None),
      activeChannel = 0,
      currentTextureChannel = - 1,
      boundUniforms = (\<lambda>_. None),
      uniformCurrentState = (\<lambda>_. None),
      textures = (\<lambda>_. \<lparr>associatedChannel = - 1, isMultiview = False, hardwareTexture = None\<rparr>),
      buffers = (\<lambda>_. \<lparr>underlyingResource = 0, references = 0, capacity = 0, is32Bits = False\<rparr>),
      nextBuffer = 0,
      compiledEffects = (\<lambda>_. None),
      effects = (\<lambda>_. \<lparr>key = [], refCount = 0, attributesNames = [],
                         attributeLocations = []\<rparr>),
      nextEffect = 0,
      colorWrite = True,
      colorWriteChanged = True,
      unpackFlipYCached = None,
      warnings = [],
      gl = []\<rparr>"

definition webgl2Caps :: caps where
  "webgl2Caps = \<lparr>uintIndices = True, maxVertexAttribs = 16, textureFloat = True,
     textureFloatLinearFiltering = True, textureHalfFloatLinearFiltering = True,
     supportSRGBBuffers = True\<rparr>"

definition webgl1Caps :: caps where
  "webgl1Caps = \<lparr>uintIndices = False, maxVertexAttribs = 8, textureFloat = False,
     textureFloatLinearFiltering = False, textureHalfFloatLinearFiltering = False,
     supportSRGBBuffers = False\<rparr>"

text \<open>A context with float textures but without their linear filtering.\<close>

definition floatWithoutLinearCaps :: caps where
  "floatWithoutLinearCaps = \<lparr>uintIndices = True, maxVertexAttribs = 16, textureFloat = True,
     textureFloatLinearFiltering = False, textureHalfFloatLinearFiltering = False,
     supportSRGBBuffers = True\<rparr>"

section \<open>Index width selection\<close>

lemma normalizeLoop_small:
  "\<forall>x\<in>set rest. x < 65535 \<Longrightarrow> normalizeLoop indices rest = new_Uint16Array indices"
  by (induction rest) auto

lemma normalizeLoop_large:
  "\<exists>x\<in>set rest. 65535 \<le> x \<Longrightarrow> normalizeLoop indices rest = new_Uint32Array indices"
  by (induction rest) auto

lemma normalize_number_or_int32:
  assumes "indices = NumberArray xs \<or> indices = Int32Array ws"
  shows "u_normalizeIndexData e indices =
           (if uintIndices (caps e) then normalizeLoop indices (numbers indices)
            else new_Uint16Array indices)"
  using assms by (auto simp: u_normalizeIndexData_def)

lemma uint16_truncates:
  "new_Uint16Array indices = Uint16Array a \<Longrightarrow>
     map uint a = map (\<lambda>x. x mod 65536) (numbers indices)"
  by (auto simp: new_Uint16Array_def uint_word_of_int)

text \<open>
  Claim C3, as the code has it. For an index list given as \<^verbatim>\<open>number[]\<close> or
  \<^verbatim>\<open>Int32Array\<close>: with the 32-bit capability and every value below 65535 the data become
  a \<^verbatim>\<open>Uint16Array\<close> (2 bytes per element); with the capability and some value of at
  least 65535 they become a \<^verbatim>\<open>Uint32Array\<close> (4 bytes per element); without the
  capability they always become a \<^verbatim>\<open>Uint16Array\<close>, each value kept modulo 65536, and
  no error is raised (the function has no failing branch). The threshold is 65535, not
  65536: the value 65535 itself already selects 32 bits.
\<close>

theorem index_width_selection:
  assumes "indices = NumberArray xs \<or> indices = Int32Array ws"
  shows "(uintIndices (caps e) \<and> (\<forall>x\<in>set (numbers indices). x < 65535)
            \<longrightarrow> u_normalizeIndexData e indices = new_Uint16Array indices)
       \<and> (uintIndices (caps e) \<and> (\<exists>x\<in>set (numbers indices). 65535 \<le> x)
            \<longrightarrow> u_normalizeIndexData e indices = new_Uint32Array indices)
       \<and> (\<not> uintIndices (caps e)
            \<longrightarrow> u_normalizeIndexData e indices = new_Uint16Array indices)
       \<and> BYTES_PER_ELEMENT (new_Uint16Array indices) = 2
       \<and> BYTES_PER_ELEMENT (new_Uint32Array indices) = 4
       \<and> (\<forall>a. new_Uint16Array indices = Uint16Array a
            \<longrightarrow> map uint a = map (\<lambda>x. x mod 65536) (numbers indices))"
proof -
  note n = normalize_number_or_int32 [OF assms, of e]
  have small: "uintIndices (caps e) \<and> (\<forall>x\<in>set (numbers indices). x < 65535)
            \<longrightarrow> u_normalizeIndexData e indices = new_Uint16Array indices"
    using n normalizeLoop_small [of "numbers indices" indices] by simp
  have large: "uintIndices (caps e) \<and> (\<exists>x\<in>set (numbers indices). 65535 \<le> x)
            \<longrightarrow> u_normalizeIndexData e indices = new_Uint32Array indices"
    using n normalizeLoop_large [of "numbers indices" indices] by simp
  have nocap: "\<not> uintIndices (caps e)
            \<longrightarrow> u_normalizeIndexData e indices = new_Uint16Array indices"
    using n by simp
  have b2: "BYTES_PER_ELEMENT (new_Uint16Array indices) = 2"
    by (simp add: BYTES_PER_ELEMENT_def new_Uint16Array_def)
  have b4: "BYTES_PER_ELEMENT (new_Uint32Array indices) = 4"
    by (simp add: BYTES_PER_ELEMENT_def new_Uint32Array_def)
  from small large nocap b2 b4 uint16_truncates show ?thesis by blast
qed

theorem index_width_selection_witness:
  "uintIndices (caps (newEngine webgl2Caps)) \<and> \<not> uintIndices (caps (newEngine webgl1Caps))
   \<and> (3 :: int) < 65535 \<and> (65535 :: int) \<le> 70000
   \<and> u_normalizeIndexData (newEngine webgl2Caps) (NumberArray [0, 1, 2, 0, 2, 3])
      = Uint16Array [0, 1, 2, 0, 2, 3]
   \<and> byteLength (u_normalizeIndexData (newEngine webgl2Caps) (NumberArray [0, 1, 2, 0, 2, 3])) = 12
   \<and> u_normalizeIndexData (newEngine webgl2Caps) (NumberArray [0, 70000])
      = Uint32Array [0, 70000]
   \<and> u_normalizeIndexData (newEngine webgl1Caps) (NumberArray [0, 70000])
      = Uint16Array [0, 4464]"
  using index_width_selection [of "NumberArray [0, 1, 2, 0, 2, 3]" "[0, 1, 2, 0, 2, 3]" "[]" "newEngine webgl2Caps"]
    index_width_selection [of "NumberArray [0, 70000]" "[0, 70000]" "[]" "newEngine webgl2Caps"]
    index_width_selection [of "NumberArray [0, 70000]" "[0, 70000]" "[]" "newEngine webgl1Caps"]
  by (simp add: newEngine_def webgl2Caps_def webgl1Caps_def new_Uint16Array_def
        new_Uint32Array_def byteLength_def)

text \<open>
  The claim as stated fails at the single index 65535: it is below 65536, the capability is
  present, and the chosen width is 32 bits.
\<close>

theorem index_width_65535_counterexample:
  "uintIndices (caps (newEngine webgl2Caps)) \<and> (65535 :: int) < 65536
   \<and> u_normalizeIndexData (newEngine webgl2Caps) (NumberArray [65535]) = Uint32Array [65535]
   \<and> BYTES_PER_ELEMENT (u_normalizeIndexData (newEngine webgl2Caps) (NumberArray [65535])) = 4"
  by (simp add: u_normalizeIndexData_def newEngine_def webgl2Caps_def new_Uint32Array_def
        BYTES_PER_ELEMENT_def)

section \<open>Bindings as state updates\<close>

text \<open>
  Each binding operation is one update of the state: the cache slot is written and the
  driver call, when there is one, is appended.
\<close>

lemma u_unbindVertexArrayObject_upd:
  "u_unbindVertexArrayObject e =
     e\<lparr>cachedVertexArrayObject := None,
       gl := gl e @ (if cachedVertexArrayObject e \<noteq> None then [BindVertexArray None] else [])\<rparr>"
  by (simp add: u_unbindVertexArrayObject_def)

lemma u_bindBuffer_upd:
  "u_bindBuffer e b t =
     e\<lparr>currentBoundBuffer := (currentBoundBuffer e)(t := Some b),
       gl := gl e @ (if vaoRecordInProgress e \<or> currentBoundBuffer e t \<noteq> Some b
                     then [BindBuffer t (case b of None \<Rightarrow> None
                              | Some r \<Rightarrow> Some (underlyingResource (buffers e r)))]
                     else [])\<rparr>"
  by (simp add: u_bindBuffer_def fun_upd_idem)

lemma bindArrayBuffer_upd:
  "bindArrayBuffer e b =
     e\<lparr>cachedVertexArrayObject :=
         (if vaoRecordInProgress e then cachedVertexArrayObject e else None),
       currentBoundBuffer := (currentBoundBuffer e)(ARRAY_BUFFER := Some b),
       gl := gl e
         @ (if \<not> vaoRecordInProgress e \<and> cachedVertexArrayObject e \<noteq> None
            then [BindVertexArray None] else [])
         @ (if vaoRecordInProgress e \<or> currentBoundBuffer e ARRAY_BUFFER \<noteq> Some b
            then [BindBuffer ARRAY_BUFFER (case b of None \<Rightarrow> None
                     | Some r \<Rightarrow> Some (underlyingResource (buffers e r)))]
            else [])\<rparr>"
  by (cases b) (simp_all add: bindArrayBuffer_def u_bindBuffer_upd u_unbindVertexArrayObject_upd)

lemma bindIndexBuffer_upd:
  "bindIndexBuffer e b =
     e\<lparr>cachedVertexArrayObject :=
         (if vaoRecordInProgress e then cachedVertexArrayObject e else None),
       currentBoundBuffer := (currentBoundBuffer e)(ELEMENT_ARRAY_BUFFER := Some b),
       gl := gl e
         @ (if \<not> vaoRecordInProgress e \<and> cachedVertexArrayObject e \<noteq> None
            then [BindVertexArray None] else [])
         @ (if vaoRecordInProgress e \<or> currentBoundBuffer e ELEMENT_ARRAY_BUFFER \<noteq> Some b
            then [BindBuffer ELEMENT_ARRAY_BUFFER (case b of None \<Rightarrow> None
                     | Some r \<Rightarrow> Some (underlyingResource (buffers e r)))]
            else [])\<rparr>"
  by (cases b) (simp_all add: bindIndexBuffer_def u_bindBuffer_upd u_unbindVertexArrayObject_upd)

lemma u_normalizeIndexData_caps:
  "u_normalizeIndexData e indices =
     (case indices of
        Typed (Uint16Array ws) \<Rightarrow> Uint16Array ws
      | _ \<Rightarrow>
        if uintIndices (caps e) then
          (case indices of
             Typed (Uint32Array ws) \<Rightarrow> Uint32Array ws
           | _ \<Rightarrow> normalizeLoop indices (numbers indices))
        else new_Uint16Array indices)"
  by (simp add: u_normalizeIndexData_def)

lemma u_normalizeIndexData_upd [simp]:
  "u_normalizeIndexData (e\<lparr>gl := g\<rparr>) indices = u_normalizeIndexData e indices"
  "u_normalizeIndexData (e\<lparr>buffers := bs\<rparr>) indices = u_normalizeIndexData e indices"
  "u_normalizeIndexData (e\<lparr>nextBuffer := n\<rparr>) indices = u_normalizeIndexData e indices"
  "u_normalizeIndexData (e\<lparr>currentBoundBuffer := cb\<rparr>) indices = u_normalizeIndexData e indices"
  "u_normalizeIndexData (e\<lparr>cachedVertexArrayObject := vao\<rparr>) indices = u_normalizeIndexData e indices"
  by (simp_all add: u_normalizeIndexData_def split: indicesArray.splits elementArray.splits)

lemma createVertexBuffer_upd:
  "u_createVertexBuffer e vdata usg (Some v) =
     Inr (e\<lparr>cachedVertexArrayObject :=
               (if vaoRecordInProgress e then cachedVertexArrayObject e else None),
             currentBoundBuffer := (currentBoundBuffer e)(ARRAY_BUFFER := Some None),
             cachedVertexBuffers := None,
             buffers := (buffers e)(nextBuffer e :=
                \<lparr>underlyingResource = v, references = 1,
                 capacity = int (case vdata of DataNumbers len \<Rightarrow> len * 4
                                 | DataBinary bytes \<Rightarrow> bytes | DataSize sz \<Rightarrow> sz),
                 is32Bits = False\<rparr>),
             nextBuffer := Suc (nextBuffer e),
             gl := gl e
               @ (if \<not> vaoRecordInProgress e \<and> cachedVertexArrayObject e \<noteq> None
                  then [BindVertexArray None] else [])
               @ (if vaoRecordInProgress e
                     \<or> currentBoundBuffer e ARRAY_BUFFER \<noteq> Some (Some (nextBuffer e))
                  then [BindBuffer ARRAY_BUFFER (Some v)] else [])
               @ [BufferData ARRAY_BUFFER
                    (Bytes (case vdata of DataNumbers len \<Rightarrow> len * 4
                            | DataBinary bytes \<Rightarrow> bytes | DataSize sz \<Rightarrow> sz)) usg,
                  BindBuffer ARRAY_BUFFER None]\<rparr>,
          nextBuffer e)"
  by (simp add: u_createVertexBuffer_def new_WebGLDataBuffer_def Let_def
        u_resetVertexBufferBinding_def bindArrayBuffer_upd)


lemma createIndexBuffer_upd:
  "createIndexBuffer e indices updatable (Some v) =
     Inr (e\<lparr>cachedVertexArrayObject :=
               (if vaoRecordInProgress e then cachedVertexArrayObject e else None),
             currentBoundBuffer := (currentBoundBuffer e)(ELEMENT_ARRAY_BUFFER := Some None),
             cachedIndexBuffer := None,
             buffers := (buffers e)(nextBuffer e :=
                \<lparr>underlyingResource = v, references = 1, capacity = 0,
                 is32Bits = (BYTES_PER_ELEMENT (u_normalizeIndexData e indices) = 4)\<rparr>),
             nextBuffer := Suc (nextBuffer e),
             gl := gl e
               @ (if \<not> vaoRecordInProgress e \<and> cachedVertexArrayObject e \<noteq> None
                  then [BindVertexArray None] else [])
               @ (if vaoRecordInProgress e
                     \<or> currentBoundBuffer e ELEMENT_ARRAY_BUFFER \<noteq> Some (Some (nextBuffer e))
                  then [BindBuffer ELEMENT_ARRAY_BUFFER (Some v)] else [])
               @ [BufferData ELEMENT_ARRAY_BUFFER (Elements (u_normalizeIndexData e indices))
                    (if updatable then DYNAMIC_DRAW else STATIC_DRAW),
                  BindBuffer ELEMENT_ARRAY_BUFFER None]\<rparr>,
          nextBuffer e)"
  by (simp add: createIndexBuffer_def new_WebGLDataBuffer_def Let_def
        u_resetIndexBufferBinding_def bindIndexBuffer_upd)


lemma create_None:
  "u_createVertexBuffer e vdata usg None = Inl (Error ''Unable to create vertex buffer'')"
  "createIndexBuffer e indices updatable None = Inl (Error ''Unable to create index buffer'')"
  by (simp_all add: u_createVertexBuffer_def createIndexBuffer_def)


section \<open>Reference-counted buffers\<close>

lemma u_releaseBuffer_effect:
  "u_releaseBuffer e b =
     (if references (buffers e b) = 1
      then (e\<lparr>buffers := (buffers e)(b := (buffers e b)\<lparr>references := 0\<rparr>),
              gl := gl e @ [DeleteBuffer (underlyingResource (buffers e b))]\<rparr>, True)
      else (e\<lparr>buffers := (buffers e)(b :=
                 (buffers e b)\<lparr>references := references (buffers e b) - 1\<rparr>)\<rparr>, False))"
  by (simp add: u_releaseBuffer_def u_deleteBuffer_def Let_def)

text \<open>
  Claim C5. A buffer created by the factory (vertex or index) has reference count 1.
  \<^verbatim>\<open>_releaseBuffer\<close> decrements the count, and deletes the driver's buffer and returns
  true exactly when the count has reached 0. So one release after creation frees the
  buffer; with a second consumer (count 2) the first release frees nothing and the second
  one frees it.
\<close>

theorem buffer_refcount_release:
  assumes "u_createVertexBuffer e vdata usg (Some v) = Inr (ea, b)
         \<or> createIndexBuffer e indices updatable (Some v) = Inr (ea, b)"
  shows "references (buffers ea b) = 1
     \<and> snd (u_releaseBuffer ea b)
     \<and> issued ea (fst (u_releaseBuffer ea b)) = [DeleteBuffer v]
     \<and> references (buffers (addReference ea b) b) = 2
     \<and> \<not> snd (u_releaseBuffer (addReference ea b) b)
     \<and> issued ea (fst (u_releaseBuffer (addReference ea b) b)) = []
     \<and> snd (u_releaseBuffer (fst (u_releaseBuffer (addReference ea b) b)) b)
     \<and> issued ea (fst (u_releaseBuffer (fst (u_releaseBuffer (addReference ea b) b)) b))
         = [DeleteBuffer v]
     \<and> (\<forall>e0 b0. references (buffers (fst (u_releaseBuffer e0 b0)) b0)
                    = references (buffers e0 b0) - 1
              \<and> snd (u_releaseBuffer e0 b0)
                    = (references (buffers (fst (u_releaseBuffer e0 b0)) b0) = 0)
              \<and> issued e0 (fst (u_releaseBuffer e0 b0))
                    = (if snd (u_releaseBuffer e0 b0)
                       then [DeleteBuffer (underlyingResource (buffers e0 b0))] else []))"
proof -
  from assms have "ea = fst (projr (u_createVertexBuffer e vdata usg (Some v))) \<and> b = nextBuffer e
      \<or> ea = fst (projr (createIndexBuffer e indices updatable (Some v))) \<and> b = nextBuffer e"
    by (auto simp: createVertexBuffer_upd createIndexBuffer_upd)
  then have r: "references (buffers ea b) = 1" and u: "underlyingResource (buffers ea b) = v"
    by (auto simp: createVertexBuffer_upd createIndexBuffer_upd)
  show ?thesis
    using r u by (simp add: u_releaseBuffer_effect addReference_def issued_def)
qed

theorem buffer_refcount_release_witness:
  "u_createVertexBuffer (newEngine webgl2Caps) (DataNumbers 3) STATIC_DRAW (Some 7)
     = Inr (fst (projr (u_createVertexBuffer (newEngine webgl2Caps) (DataNumbers 3)
                          STATIC_DRAW (Some 7))), 0)
   \<and> snd (u_releaseBuffer
            (fst (projr (u_createVertexBuffer (newEngine webgl2Caps) (DataNumbers 3)
                           STATIC_DRAW (Some 7)))) 0)
   \<and> \<not> snd (u_releaseBuffer
              (addReference
                 (fst (projr (u_createVertexBuffer (newEngine webgl2Caps) (DataNumbers 3)
                                STATIC_DRAW (Some 7)))) 0) 0)"
  using buffer_refcount_release [where e = "newEngine webgl2Caps" and vdata = "DataNumbers 3"
      and usg = STATIC_DRAW and v = 7 and b = 0
      and ea = "fst (projr (u_createVertexBuffer (newEngine webgl2Caps) (DataNumbers 3)
                              STATIC_DRAW (Some 7)))"]
  by (simp add: createVertexBuffer_upd newEngine_def)

section \<open>Buffer creation leaves nothing bound\<close>

text \<open>
  Claim C7. When \<^verbatim>\<open>_createVertexBuffer\<close> (behind \<^verbatim>\<open>createVertexBuffer\<close>) or
  \<^verbatim>\<open>createIndexBuffer\<close> returns, the cached binding of its target is \<^verbatim>\<open>null\<close>, so it is
  not the new buffer; for an index buffer the cached index buffer is \<^verbatim>\<open>null\<close> too. The
  calls issued are: the unbinding of a cached vertex array object if there is one, the
  bind of the new buffer, the upload, and the bind of \<^verbatim>\<open>null\<close>. (The bind of the new buffer
  goes through the cache, and the new object cannot be the cached one: this is the
  premise on \<open>nextBuffer\<close>.)
\<close>

theorem creation_unbinds:
  "(u_createVertexBuffer e vdata usg vbo = Inr (ea, b) \<longrightarrow>
       currentBoundBuffer ea ARRAY_BUFFER = Some None
     \<and> currentBoundBuffer ea ARRAY_BUFFER \<noteq> Some (Some b)
     \<and> (vaoRecordInProgress e \<or> currentBoundBuffer e ARRAY_BUFFER \<noteq> Some (Some (nextBuffer e)) \<longrightarrow>
          issued e ea =
            (if \<not> vaoRecordInProgress e \<and> cachedVertexArrayObject e \<noteq> None
             then [BindVertexArray None] else [])
            @ [BindBuffer ARRAY_BUFFER vbo,
               BufferData ARRAY_BUFFER
                 (Bytes (case vdata of DataNumbers len \<Rightarrow> len * 4 | DataBinary bytes \<Rightarrow> bytes
                                     | DataSize sz \<Rightarrow> sz)) usg,
               BindBuffer ARRAY_BUFFER None]))
 \<and> (createIndexBuffer e indices updatable vbo = Inr (eb, bb) \<longrightarrow>
       currentBoundBuffer eb ELEMENT_ARRAY_BUFFER = Some None
     \<and> currentBoundBuffer eb ELEMENT_ARRAY_BUFFER \<noteq> Some (Some bb)
     \<and> cachedIndexBuffer eb = None
     \<and> (vaoRecordInProgress e \<or> currentBoundBuffer e ELEMENT_ARRAY_BUFFER \<noteq> Some (Some (nextBuffer e)) \<longrightarrow>
          issued e eb =
            (if \<not> vaoRecordInProgress e \<and> cachedVertexArrayObject e \<noteq> None
             then [BindVertexArray None] else [])
            @ [BindBuffer ELEMENT_ARRAY_BUFFER vbo,
               BufferData ELEMENT_ARRAY_BUFFER (Elements (u_normalizeIndexData e indices))
                 (if updatable then DYNAMIC_DRAW else STATIC_DRAW),
               BindBuffer ELEMENT_ARRAY_BUFFER None]))"
proof (cases vbo)
  case None
  then show ?thesis by (simp add: create_None)
next
  case (Some v)
  have V: "currentBoundBuffer ea ARRAY_BUFFER = Some None
     \<and> currentBoundBuffer ea ARRAY_BUFFER \<noteq> Some (Some b)
     \<and> (vaoRecordInProgress e \<or> currentBoundBuffer e ARRAY_BUFFER \<noteq> Some (Some (nextBuffer e)) \<longrightarrow>
          issued e ea =
            (if \<not> vaoRecordInProgress e \<and> cachedVertexArrayObject e \<noteq> None
             then [BindVertexArray None] else [])
            @ [BindBuffer ARRAY_BUFFER vbo,
               BufferData ARRAY_BUFFER
                 (Bytes (case vdata of DataNumbers len \<Rightarrow> len * 4 | DataBinary bytes \<Rightarrow> bytes
                                     | DataSize sz \<Rightarrow> sz)) usg,
               BindBuffer ARRAY_BUFFER None])"
    if c: "u_createVertexBuffer e vdata usg vbo = Inr (ea, b)"
  proof -
    have ea: "ea = fst (projr (u_createVertexBuffer e vdata usg vbo))"
      using c by simp
    show ?thesis
      by (simp add: ea Some createVertexBuffer_upd issued_def)
  qed
  have I: "currentBoundBuffer eb ELEMENT_ARRAY_BUFFER = Some None
     \<and> currentBoundBuffer eb ELEMENT_ARRAY_BUFFER \<noteq> Some (Some bb)
     \<and> cachedIndexBuffer eb = None
     \<and> (vaoRecordInProgress e \<or> currentBoundBuffer e ELEMENT_ARRAY_BUFFER \<noteq> Some (Some (nextBuffer e)) \<longrightarrow>
          issued e eb =
            (if \<not> vaoRecordInProgress e \<and> cachedVertexArrayObject e \<noteq> None
             then [BindVertexArray None] else [])
            @ [BindBuffer ELEMENT_ARRAY_BUFFER vbo,
               BufferData ELEMENT_ARRAY_BUFFER (Elements (u_normalizeIndexData e indices))
                 (if updatable then DYNAMIC_DRAW else STATIC_DRAW),
               BindBuffer ELEMENT_ARRAY_BUFFER None])"
    if c: "createIndexBuffer e indices updatable vbo = Inr (eb, bb)"
  proof -
    have eb: "eb = fst (projr (createIndexBuffer e indices updatable vbo))"
      using c by simp
    show ?thesis
      by (simp add: eb Some createIndexBuffer_upd issued_def)
  qed
  from V I show ?thesis by blast
qed

theorem creation_unbinds_witness:
  "u_createVertexBuffer (newEngine webgl2Caps) (DataNumbers 3) STATIC_DRAW (Some 7)
     = Inr (fst (projr (u_createVertexBuffer (newEngine webgl2Caps) (DataNumbers 3)
                          STATIC_DRAW (Some 7))), 0)
   \<and> createIndexBuffer (newEngine webgl2Caps) (NumberArray [0, 1, 2, 0, 2, 3]) False (Some 8)
     = Inr (fst (projr (createIndexBuffer (newEngine webgl2Caps)
                          (NumberArray [0, 1, 2, 0, 2, 3]) False (Some 8))), 0)
   \<and> currentBoundBuffer (newEngine webgl2Caps) ARRAY_BUFFER \<noteq> Some (Some 0)
   \<and> issued (newEngine webgl2Caps)
        (fst (projr (u_createVertexBuffer (newEngine webgl2Caps) (DataNumbers 3)
                       STATIC_DRAW (Some 7))))
      = [BindBuffer ARRAY_BUFFER (Some 7), BufferData ARRAY_BUFFER (Bytes 12) STATIC_DRAW,
         BindBuffer ARRAY_BUFFER None]
   \<and> issued (newEngine webgl2Caps)
        (fst (projr (createIndexBuffer (newEngine webgl2Caps)
                       (NumberArray [0, 1, 2, 0, 2, 3]) False (Some 8))))
      = [BindBuffer ELEMENT_ARRAY_BUFFER (Some 8),
         BufferData ELEMENT_ARRAY_BUFFER (Elements (Uint16Array [0, 1, 2, 0, 2, 3])) STATIC_DRAW,
         BindBuffer ELEMENT_ARRAY_BUFFER None]"
  using creation_unbinds [where e = "newEngine webgl2Caps" and vdata = "DataNumbers 3"
      and usg = STATIC_DRAW and vbo = "Some 7" and b = 0
      and ea = "fst (projr (u_createVertexBuffer (newEngine webgl2Caps) (DataNumbers 3)
                              STATIC_DRAW (Some 7)))"]
    creation_unbinds [where e = "newEngine webgl2Caps"
      and indices = "NumberArray [0, 1, 2, 0, 2, 3]" and updatable = False
      and vbo = "Some 8" and bb = 0
      and eb = "fst (projr (createIndexBuffer (newEngine webgl2Caps)
                              (NumberArray [0, 1, 2, 0, 2, 3]) False (Some 8)))"]
  by (simp add: createVertexBuffer_upd createIndexBuffer_upd newEngine_def webgl2Caps_def
        u_normalizeIndexData_def new_Uint16Array_def)

section \<open>Program, texture and draw operations as state updates\<close>

lemma u_setProgram_upd:
  "u_setProgram e p =
     e\<lparr>currentProgram := Some p,
       gl := gl e @ (if currentProgram e \<noteq> Some p then [UseProgram p] else [])\<rparr>"
  by (simp add: u_setProgram_def)

lemma applyStates_upd:
  "applyStates e stateCalls =
     e\<lparr>colorWriteChanged := False,
       gl := gl e @ stateCalls
         @ (if colorWriteChanged e
            then [ColorMask (colorWrite e) (colorWrite e) (colorWrite e) (colorWrite e)]
            else [])\<rparr>"
  by (simp add: applyStates_def Let_def)

lemma bindTexture_first_case:
  "case u_bindTextureDirectly e target texture upd False of
     Inl _ \<Rightarrow> True
   | Inr (e1, w) \<Rightarrow>
       boundTexturesCache e1 (activeChannel e1) = Some texture
     \<and> (upd \<longrightarrow> currentTextureChannel e1 = activeChannel e1)
     \<and> (\<forall>t. upd \<and> texture = Some t \<and> associatedChannel (textures e1 t) > - 1
            \<longrightarrow> associatedChannel (textures e1 t) = activeChannel e1)"
proof (cases texture)
  case None
  then show ?thesis
    by (simp add: u_bindTextureDirectly_def Let_def u_activateCurrentTexture_def)
next
  case (Some t)
  then show ?thesis
    by (simp add: u_bindTextureDirectly_def Let_def u_activateCurrentTexture_def
          u_bindSamplerUniformToChannel_def split: option.splits)
qed

lemma bindTexture_first:
  assumes "u_bindTextureDirectly e target texture upd False = Inr (e1, w)"
  shows "boundTexturesCache e1 (activeChannel e1) = Some texture
       \<and> (upd \<longrightarrow> currentTextureChannel e1 = activeChannel e1)
       \<and> (\<forall>t. upd \<and> texture = Some t \<and> associatedChannel (textures e1 t) > - 1
              \<longrightarrow> associatedChannel (textures e1 t) = activeChannel e1)"
  using bindTexture_first_case [where e=e and target=target and texture=texture and upd=upd] assms by simp

lemma bindTexture_cached:
  assumes "boundTexturesCache e1 (activeChannel e1) = Some texture"
    and "upd \<longrightarrow> currentTextureChannel e1 = activeChannel e1"
    and "\<forall>t. upd \<and> texture = Some t \<and> associatedChannel (textures e1 t) > - 1
              \<longrightarrow> associatedChannel (textures e1 t) = activeChannel e1"
  shows "u_bindTextureDirectly e1 target texture upd False =
           Inr (if upd then (e1, True)
                else (case texture of
                        None \<Rightarrow> (e1, False)
                      | Some t \<Rightarrow>
                          if associatedChannel (textures e1 t) > - 1
                          then (u_bindSamplerUniformToChannel e1
                                  (associatedChannel (textures e1 t)) (activeChannel e1), False)
                          else (e1, False)))"
proof (cases texture)
  case None
  with assms show ?thesis
    by (simp add: u_bindTextureDirectly_def Let_def u_activateCurrentTexture_def)
next
  case (Some t)
  with assms show ?thesis
    by (cases "associatedChannel (textures e1 t) > - 1")
       (simp_all add: u_bindTextureDirectly_def Let_def u_activateCurrentTexture_def)
qed

lemma u_bindSamplerUniformToChannel_frame:
  "boundTexturesCache (u_bindSamplerUniformToChannel e s d) = boundTexturesCache e"
  "activeChannel (u_bindSamplerUniformToChannel e s d) = activeChannel e"
  "currentTextureChannel (u_bindSamplerUniformToChannel e s d) = currentTextureChannel e"
  "textures (u_bindSamplerUniformToChannel e s d) = textures e"
  "issued e (u_bindSamplerUniformToChannel e s d) =
     (case boundUniforms e s of None \<Rightarrow> []
      | Some u \<Rightarrow> if uniformCurrentState e u = Some d then [] else [Uniform1i u d])"
  by (simp_all add: u_bindSamplerUniformToChannel_def issued_def split: option.splits)



section \<open>Disabling the vertex attributes\<close>

text \<open>
  \<^verbatim>\<open>unbindAllAttributes\<close> only touches the attribute state and only issues
  \<^verbatim>\<open>disableVertexAttribArray\<close>; it returns when every attribute has its pointer.
\<close>

lemma disableAttributeByIndex_upd:
  "disableAttributeByIndex e i =
     (if i < length (currentBufferPointers e)
      then Inr (e\<lparr>vertexAttribArraysEnabled := jsArraySet (vertexAttribArraysEnabled e) i False,
                  currentBufferPointers := (currentBufferPointers e)
                     [i := (currentBufferPointers e ! i)\<lparr>active := False\<rparr>],
                  gl := gl e @ [DisableVertexAttribArray i]\<rparr>)
      else Inl TypeError)"
  by (simp add: disableAttributeByIndex_def Let_def)

lemma wipeLoop_frame:
  "wipeLoop e is = Inr e' \<Longrightarrow>
     \<exists>a p cs. e' = e\<lparr>vertexAttribArraysEnabled := a, currentBufferPointers := p,
                      gl := gl e @ cs\<rparr>
        \<and> length p = length (currentBufferPointers e) \<and> list_all isDisable cs"
proof (induction "is" arbitrary: e)
  case Nil
  then have "e' = e\<lparr>vertexAttribArraysEnabled := vertexAttribArraysEnabled e,
                     currentBufferPointers := currentBufferPointers e, gl := gl e @ []\<rparr>"
    by simp
  then show ?case by (intro exI [where x = "[]"] exI conjI) (assumption, simp_all)
next
  case (Cons i rest)
  from Cons.prems obtain e1 where d: "disableAttributeByIndex e i = Inr e1"
    and w: "wipeLoop e1 rest = Inr e'"
    by (auto split: sum.splits)
  from d have e1: "e1 = e\<lparr>vertexAttribArraysEnabled := jsArraySet (vertexAttribArraysEnabled e) i False,
                  currentBufferPointers := (currentBufferPointers e)
                     [i := (currentBufferPointers e ! i)\<lparr>active := False\<rparr>],
                  gl := gl e @ [DisableVertexAttribArray i]\<rparr>"
    by (simp add: disableAttributeByIndex_upd split: if_splits)
  from Cons.IH [OF w] obtain a p cs where
    e': "e' = e1\<lparr>vertexAttribArraysEnabled := a, currentBufferPointers := p, gl := gl e1 @ cs\<rparr>"
    and l: "length p = length (currentBufferPointers e1)" and c: "list_all isDisable cs"
    by blast
  have "e' = e\<lparr>vertexAttribArraysEnabled := a, currentBufferPointers := p,
                 gl := gl e @ (DisableVertexAttribArray i # cs)\<rparr>"
    by (simp add: e' e1)
  moreover have "length p = length (currentBufferPointers e)" using l by (simp add: e1)
  moreover have "list_all isDisable (DisableVertexAttribArray i # cs)" using c by simp
  ultimately show ?case by blast
qed

lemma unbindLoop_frame:
  "unbindLoop e is = Inr e' \<Longrightarrow>
     \<exists>a p cs. e' = e\<lparr>vertexAttribArraysEnabled := a, currentBufferPointers := p,
                      gl := gl e @ cs\<rparr>
        \<and> length p = length (currentBufferPointers e) \<and> list_all isDisable cs"
proof (induction "is" arbitrary: e)
  case Nil
  then have "e' = e\<lparr>vertexAttribArraysEnabled := vertexAttribArraysEnabled e,
                     currentBufferPointers := currentBufferPointers e, gl := gl e @ []\<rparr>"
    by simp
  then show ?case by (intro exI [where x = "[]"] exI conjI) (assumption, simp_all)
next
  case (Cons i rest)
  show ?case
  proof (cases "i \<ge> maxVertexAttribs (caps e) \<or> i \<ge> length (vertexAttribArraysEnabled e)
          \<or> \<not> vertexAttribArraysEnabled e ! i")
    case True
    with Cons.prems have "unbindLoop e rest = Inr e'" by simp
    from Cons.IH [OF this] show ?thesis .
  next
    case False
    with Cons.prems obtain e1 where d: "disableAttributeByIndex e i = Inr e1"
      and w: "unbindLoop e1 rest = Inr e'"
      by (auto split: sum.splits)
    from d have e1: "e1 = e\<lparr>vertexAttribArraysEnabled := jsArraySet (vertexAttribArraysEnabled e) i False,
                  currentBufferPointers := (currentBufferPointers e)
                     [i := (currentBufferPointers e ! i)\<lparr>active := False\<rparr>],
                  gl := gl e @ [DisableVertexAttribArray i]\<rparr>"
      by (simp add: disableAttributeByIndex_upd split: if_splits)
    from Cons.IH [OF w] obtain a p cs where
      e': "e' = e1\<lparr>vertexAttribArraysEnabled := a, currentBufferPointers := p, gl := gl e1 @ cs\<rparr>"
      and l: "length p = length (currentBufferPointers e1)" and c: "list_all isDisable cs"
      by blast
    have "e' = e\<lparr>vertexAttribArraysEnabled := a, currentBufferPointers := p,
                 gl := gl e @ (DisableVertexAttribArray i # cs)\<rparr>"
      by (simp add: e' e1)
    moreover have "length p = length (currentBufferPointers e)" using l by (simp add: e1)
    moreover have "list_all isDisable (DisableVertexAttribArray i # cs)" using c by simp
    ultimately show ?thesis by blast
  qed
qed

lemma unbindAllAttributes_frame:
  assumes "unbindAllAttributes e = Inr e'"
  shows "\<exists>a p cs. e' = e\<lparr>mustWipeVertexAttributes := False, vertexAttribArraysEnabled := a,
                          currentBufferPointers := p, gl := gl e @ cs\<rparr>
        \<and> length p = length (currentBufferPointers e) \<and> list_all isDisable cs"
proof (cases "mustWipeVertexAttributes e")
  case True
  with assms have "wipeLoop (e\<lparr>mustWipeVertexAttributes := False\<rparr>)
                     [0 ..< maxVertexAttribs (caps e)] = Inr e'"
    by (simp add: unbindAllAttributes_def)
  from wipeLoop_frame [OF this] show ?thesis by simp
next
  case False
  with assms have "unbindLoop e [0 ..< length (vertexAttribArraysEnabled e)] = Inr e'"
    by (simp add: unbindAllAttributes_def)
  from unbindLoop_frame [OF this] obtain a p cs where
    "e' = e\<lparr>vertexAttribArraysEnabled := a, currentBufferPointers := p, gl := gl e @ cs\<rparr>"
    "length p = length (currentBufferPointers e)" "list_all isDisable cs" by blast
  moreover have "e\<lparr>mustWipeVertexAttributes := False\<rparr> = e" using False by simp
  ultimately have "e' = e\<lparr>mustWipeVertexAttributes := False, vertexAttribArraysEnabled := a,
                          currentBufferPointers := p, gl := gl e @ cs\<rparr>"
    by simp
  then show ?thesis using \<open>length p = length (currentBufferPointers e)\<close> \<open>list_all isDisable cs\<close>
    by blast
qed

lemma wipeLoop_succeeds:
  "\<forall>i\<in>set is. i < length (currentBufferPointers e) \<Longrightarrow> \<exists>e'. wipeLoop e is = Inr e'"
proof (induction "is" arbitrary: e)
  case Nil
  then show ?case by simp
next
  case (Cons i rest)
  then have "i < length (currentBufferPointers e)" by simp
  then obtain e1 where d: "disableAttributeByIndex e i = Inr e1"
    and l: "length (currentBufferPointers e1) = length (currentBufferPointers e)"
    by (simp add: disableAttributeByIndex_upd)
  from Cons.prems l have "\<forall>i\<in>set rest. i < length (currentBufferPointers e1)" by simp
  from Cons.IH [OF this] d show ?case by simp
qed

lemma unbindLoop_succeeds:
  "maxVertexAttribs (caps e) \<le> length (currentBufferPointers e) \<Longrightarrow> \<exists>e'. unbindLoop e is = Inr e'"
proof (induction "is" arbitrary: e)
  case Nil
  then show ?case by simp
next
  case (Cons i rest)
  show ?case
  proof (cases "i \<ge> maxVertexAttribs (caps e) \<or> i \<ge> length (vertexAttribArraysEnabled e)
          \<or> \<not> vertexAttribArraysEnabled e ! i")
    case True
    then show ?thesis using Cons.IH [OF Cons.prems] by simp
  next
    case False
    with Cons.prems have "i < length (currentBufferPointers e)" by simp
    then obtain e1 where d: "disableAttributeByIndex e i = Inr e1"
      and l: "length (currentBufferPointers e1) = length (currentBufferPointers e)"
      and c: "caps e1 = caps e"
      by (simp add: disableAttributeByIndex_upd)
    from Cons.prems l c have "maxVertexAttribs (caps e1) \<le> length (currentBufferPointers e1)" by simp
    from Cons.IH [OF this] d False show ?thesis by simp
  qed
qed

lemma unbindAllAttributes_succeeds:
  assumes "maxVertexAttribs (caps e) \<le> length (currentBufferPointers e)"
  shows "\<exists>e'. unbindAllAttributes e = Inr e'"
proof (cases "mustWipeVertexAttributes e")
  case True
  have "\<forall>i\<in>set [0 ..< maxVertexAttribs (caps e)].
          i < length (currentBufferPointers (e\<lparr>mustWipeVertexAttributes := False\<rparr>))"
    using assms by simp
  from wipeLoop_succeeds [OF this] True show ?thesis by (simp add: unbindAllAttributes_def)
next
  case False
  with unbindLoop_succeeds [OF assms] show ?thesis by (simp add: unbindAllAttributes_def)
qed



section \<open>What a wipe resets\<close>

lemma wipeCaches_skipped:
  "preventCacheWipeBetweenFrames e \<Longrightarrow> wipeCaches e False = Inr e"
  by (simp add: wipeCaches_def)


lemma wipeCaches_brute:
  assumes "wipeCaches e True = Inr e'"
  shows "\<exists>a p cs. e' =
     e\<lparr>currentEffect := None, viewportCached := (0, 0, 0, 0),
       cachedVertexArrayObject := None, currentProgram := Some None,
       boundTexturesCache := (\<lambda>_. None), currentTextureChannel := - 1,
       colorWrite := True, colorWriteChanged := True, unpackFlipYCached := None,
       mustWipeVertexAttributes := False, vertexAttribArraysEnabled := a,
       currentBufferPointers := p,
       currentBoundBuffer := (currentBoundBuffer e)
          (ARRAY_BUFFER := Some None, ELEMENT_ARRAY_BUFFER := Some None),
       cachedVertexBuffers := None, cachedIndexBuffer := None,
       cachedEffectForVertexBuffers := None,
       gl := gl e @ cs\<rparr>"
proof -
  define e2 where "e2 = (resetTextureCache
       ((u_unbindVertexArrayObject (e\<lparr>currentEffect := None, viewportCached := (0, 0, 0, 0)\<rparr>))
          \<lparr>currentProgram := Some None\<rparr>))
       \<lparr>colorWrite := True, colorWriteChanged := True, unpackFlipYCached := None\<rparr>"
  define e2' where "e2' = e2\<lparr>mustWipeVertexAttributes := True,
       gl := gl e2 @ [PixelStorei UNPACK_COLORSPACE_CONVERSION_WEBGL 0,
                      PixelStorei UNPACK_PREMULTIPLY_ALPHA_WEBGL 0]\<rparr>"
  from assms obtain e3 where u: "unbindAllAttributes e2' = Inr e3"
    and e': "e' = bindIndexBuffer
                   ((u_resetVertexBufferBinding e3)
                      \<lparr>cachedIndexBuffer := None, cachedEffectForVertexBuffers := None\<rparr>) None"
    by (auto simp: wipeCaches_def Let_def e2_def e2'_def split: sum.splits)
  from unbindAllAttributes_frame [OF u] obtain a p cs where
    e3: "e3 = e2'\<lparr>mustWipeVertexAttributes := False, vertexAttribArraysEnabled := a,
                   currentBufferPointers := p, gl := gl e2' @ cs\<rparr>"
    by blast
  have fields: "e' =
     e\<lparr>currentEffect := None, viewportCached := (0, 0, 0, 0),
       cachedVertexArrayObject := None, currentProgram := Some None,
       boundTexturesCache := (\<lambda>_. None), currentTextureChannel := - 1,
       colorWrite := True, colorWriteChanged := True, unpackFlipYCached := None,
       mustWipeVertexAttributes := False, vertexAttribArraysEnabled := a,
       currentBufferPointers := p,
       currentBoundBuffer := (currentBoundBuffer e)
          (ARRAY_BUFFER := Some None, ELEMENT_ARRAY_BUFFER := Some None),
       cachedVertexBuffers := None, cachedIndexBuffer := None,
       cachedEffectForVertexBuffers := None,
       gl := gl e'\<rparr>"
    unfolding e' e3 e2'_def e2_def
    by (simp add: u_resetVertexBufferBinding_def bindArrayBuffer_upd bindIndexBuffer_upd
          u_unbindVertexArrayObject_upd resetTextureCache_def)
  have "\<exists>cs'. gl e' = gl e @ cs'"
    unfolding e' e3 e2'_def e2_def
    by (simp add: u_resetVertexBufferBinding_def bindArrayBuffer_upd bindIndexBuffer_upd
          u_unbindVertexArrayObject_upd resetTextureCache_def)
  then obtain cs' where "gl e' = gl e @ cs'" by blast
  with fields have "e' =
     e\<lparr>currentEffect := None, viewportCached := (0, 0, 0, 0),
       cachedVertexArrayObject := None, currentProgram := Some None,
       boundTexturesCache := (\<lambda>_. None), currentTextureChannel := - 1,
       colorWrite := True, colorWriteChanged := True, unpackFlipYCached := None,
       mustWipeVertexAttributes := False, vertexAttribArraysEnabled := a,
       currentBufferPointers := p,
       currentBoundBuffer := (currentBoundBuffer e)
          (ARRAY_BUFFER := Some None, ELEMENT_ARRAY_BUFFER := Some None),
       cachedVertexBuffers := None, cachedIndexBuffer := None,
       cachedEffectForVertexBuffers := None,
       gl := gl e @ cs'\<rparr>"
    by simp
  then show ?thesis by blast
qed

lemma wipeCaches_brute_succeeds:
  assumes "maxVertexAttribs (caps e) \<le> length (currentBufferPointers e)"
  shows "\<exists>e'. wipeCaches e True = Inr e'"
proof -
  define e2' where "e2' = ((resetTextureCache
       ((u_unbindVertexArrayObject (e\<lparr>currentEffect := None, viewportCached := (0, 0, 0, 0)\<rparr>))
          \<lparr>currentProgram := Some None\<rparr>))
       \<lparr>colorWrite := True, colorWriteChanged := True, unpackFlipYCached := None\<rparr>)
       \<lparr>mustWipeVertexAttributes := True,
        gl := gl ((resetTextureCache
       ((u_unbindVertexArrayObject (e\<lparr>currentEffect := None, viewportCached := (0, 0, 0, 0)\<rparr>))
          \<lparr>currentProgram := Some None\<rparr>))
       \<lparr>colorWrite := True, colorWriteChanged := True, unpackFlipYCached := None\<rparr>)
          @ [PixelStorei UNPACK_COLORSPACE_CONVERSION_WEBGL 0,
                      PixelStorei UNPACK_PREMULTIPLY_ALPHA_WEBGL 0]\<rparr>"
  have "maxVertexAttribs (caps e2') \<le> length (currentBufferPointers e2')"
    using assms by (simp add: e2'_def resetTextureCache_def u_unbindVertexArrayObject_upd)
  from unbindAllAttributes_succeeds [OF this] obtain e3 where "unbindAllAttributes e2' = Inr e3"
    by blast
  then show ?thesis
    by (simp add: wipeCaches_def Let_def e2'_def)
qed

text \<open>
  Claim C10. With \<^verbatim>\<open>preventCacheWipeBetweenFrames\<close> set, \<^verbatim>\<open>wipeCaches()\<close> without
  \<^verbatim>\<open>bruteForce\<close> returns at once: the whole state, caches and issued calls included, is
  unchanged. \<^verbatim>\<open>wipeCaches(true)\<close> still performs the reset in that configuration: it
  returns (when every attribute has its pointer) with the effect, viewport, vertex array
  object, program, buffer bindings and vertex-buffer caches reset.
\<close>

theorem wipe_prevented:
  assumes "preventCacheWipeBetweenFrames e"
  shows "wipeCaches e False = Inr e
     \<and> issued e (projr (wipeCaches e False)) = []
     \<and> (maxVertexAttribs (caps e) \<le> length (currentBufferPointers e) \<longrightarrow>
          (\<exists>e'. wipeCaches e True = Inr e'
             \<and> currentEffect e' = None \<and> viewportCached e' = (0, 0, 0, 0)
             \<and> cachedVertexArrayObject e' = None \<and> currentProgram e' = Some None
             \<and> currentBoundBuffer e' ARRAY_BUFFER = Some None
             \<and> currentBoundBuffer e' ELEMENT_ARRAY_BUFFER = Some None
             \<and> cachedVertexBuffers e' = None \<and> cachedIndexBuffer e' = None
             \<and> cachedEffectForVertexBuffers e' = None))"
proof -
  have skip: "wipeCaches e False = Inr e" using assms by (rule wipeCaches_skipped)
  have brute: "\<exists>e'. wipeCaches e True = Inr e'
             \<and> currentEffect e' = None \<and> viewportCached e' = (0, 0, 0, 0)
             \<and> cachedVertexArrayObject e' = None \<and> currentProgram e' = Some None
             \<and> currentBoundBuffer e' ARRAY_BUFFER = Some None
             \<and> currentBoundBuffer e' ELEMENT_ARRAY_BUFFER = Some None
             \<and> cachedVertexBuffers e' = None \<and> cachedIndexBuffer e' = None
             \<and> cachedEffectForVertexBuffers e' = None"
    if "maxVertexAttribs (caps e) \<le> length (currentBufferPointers e)"
  proof -
    from wipeCaches_brute_succeeds [OF that] obtain e' where w: "wipeCaches e True = Inr e'"
      by blast
    from wipeCaches_brute [OF w] obtain a p cs where "e' =
     e\<lparr>currentEffect := None, viewportCached := (0, 0, 0, 0),
       cachedVertexArrayObject := None, currentProgram := Some None,
       boundTexturesCache := (\<lambda>_. None), currentTextureChannel := - 1,
       colorWrite := True, colorWriteChanged := True, unpackFlipYCached := None,
       mustWipeVertexAttributes := False, vertexAttribArraysEnabled := a,
       currentBufferPointers := p,
       currentBoundBuffer := (currentBoundBuffer e)
          (ARRAY_BUFFER := Some None, ELEMENT_ARRAY_BUFFER := Some None),
       cachedVertexBuffers := None, cachedIndexBuffer := None,
       cachedEffectForVertexBuffers := None,
       gl := gl e @ cs\<rparr>" by blast
    with w show ?thesis by simp
  qed
  from skip brute show ?thesis by (simp add: issued_def)
qed

theorem wipe_prevented_witness:
  "preventCacheWipeBetweenFrames ((newEngine webgl2Caps)\<lparr>preventCacheWipeBetweenFrames := True\<rparr>)
   \<and> maxVertexAttribs (caps ((newEngine webgl2Caps)\<lparr>preventCacheWipeBetweenFrames := True\<rparr>))
       \<le> length (currentBufferPointers
                 ((newEngine webgl2Caps)\<lparr>preventCacheWipeBetweenFrames := True\<rparr>))
   \<and> wipeCaches ((newEngine webgl2Caps)\<lparr>preventCacheWipeBetweenFrames := True\<rparr>) False
       = Inr ((newEngine webgl2Caps)\<lparr>preventCacheWipeBetweenFrames := True\<rparr>)
   \<and> \<not> isl (wipeCaches ((newEngine webgl2Caps)\<lparr>preventCacheWipeBetweenFrames := True\<rparr>) True)"
  using wipe_prevented [of "(newEngine webgl2Caps)\<lparr>preventCacheWipeBetweenFrames := True\<rparr>"]
  by (auto simp: newEngine_def webgl2Caps_def)


section \<open>Binding after a wipe\<close>






section \<open>Binding the same handle twice\<close>

text \<open>
  Claim C1, as the code has it. Outside the recording of a vertex array object, binding
  the same buffer twice to a target is the same as binding it once: the second call
  changes nothing and issues nothing, and the two calls together issue the driver call
  once if the buffer was not the cached one and not at all if it was. The same holds for
  the program. For a texture bound twice without \<^verbatim>\<open>force\<close>, the second call returns,
  leaves the texture caches as they are and issues no \<^verbatim>\<open>bindTexture\<close> or
  \<^verbatim>\<open>activeTexture\<close>; the only call it may issue is the \<^verbatim>\<open>uniform1i\<close> that points the
  sampler of the texture at its channel.
\<close>

theorem rebind_is_noop:
  "(\<not> vaoRecordInProgress e \<longrightarrow>
       u_bindBuffer (u_bindBuffer e b t) b t = u_bindBuffer e b t
     \<and> bindArrayBuffer (bindArrayBuffer e b) b = bindArrayBuffer e b
     \<and> bindIndexBuffer (bindIndexBuffer e b) b = bindIndexBuffer e b
     \<and> issued e (u_bindBuffer (u_bindBuffer e b t) b t)
         = (if currentBoundBuffer e t \<noteq> Some b
            then [BindBuffer t (case b of None \<Rightarrow> None
                     | Some r \<Rightarrow> Some (underlyingResource (buffers e r)))]
            else []))
   \<and> u_setProgram (u_setProgram e p) p = u_setProgram e p
   \<and> issued e (u_setProgram (u_setProgram e p) p)
       = (if currentProgram e \<noteq> Some p then [UseProgram p] else [])
   \<and> (\<forall>ea w. u_bindTextureDirectly e target texture upd False = Inr (ea, w) \<longrightarrow>
         (\<exists>eb wb. u_bindTextureDirectly ea target texture upd False = Inr (eb, wb)
            \<and> boundTexturesCache eb = boundTexturesCache ea
            \<and> activeChannel eb = activeChannel ea
            \<and> currentTextureChannel eb = currentTextureChannel ea
            \<and> textures eb = textures ea
            \<and> (upd \<longrightarrow> eb = ea)
            \<and> (issued ea eb = [] \<or> (\<exists>u. issued ea eb = [Uniform1i u (activeChannel ea)]))))"
proof -
  have buf: "u_bindBuffer (u_bindBuffer e b t) b t = u_bindBuffer e b t
     \<and> bindArrayBuffer (bindArrayBuffer e b) b = bindArrayBuffer e b
     \<and> bindIndexBuffer (bindIndexBuffer e b) b = bindIndexBuffer e b
     \<and> issued e (u_bindBuffer (u_bindBuffer e b t) b t)
         = (if currentBoundBuffer e t \<noteq> Some b
            then [BindBuffer t (case b of None \<Rightarrow> None
                     | Some r \<Rightarrow> Some (underlyingResource (buffers e r)))]
            else [])"
    if "\<not> vaoRecordInProgress e"
    using that
    by (simp add: u_bindBuffer_upd bindArrayBuffer_upd bindIndexBuffer_upd issued_def)
  have prog: "u_setProgram (u_setProgram e p) p = u_setProgram e p
   \<and> issued e (u_setProgram (u_setProgram e p) p)
       = (if currentProgram e \<noteq> Some p then [UseProgram p] else [])"
    by (simp add: u_setProgram_upd issued_def)
  have tex: "\<exists>eb wb. u_bindTextureDirectly ea target texture upd False = Inr (eb, wb)
            \<and> boundTexturesCache eb = boundTexturesCache ea
            \<and> activeChannel eb = activeChannel ea
            \<and> currentTextureChannel eb = currentTextureChannel ea
            \<and> textures eb = textures ea
            \<and> (upd \<longrightarrow> eb = ea)
            \<and> (issued ea eb = [] \<or> (\<exists>u. issued ea eb = [Uniform1i u (activeChannel ea)]))"
    if f: "u_bindTextureDirectly e target texture upd False = Inr (ea, w)" for ea w
  proof -
    note c = bindTexture_cached [where ?e1.0 = ea and texture = texture and upd = upd
        and target = target]
    from bindTexture_first [OF f] have
      s: "u_bindTextureDirectly ea target texture upd False =
           Inr (if upd then (ea, True)
                else (case texture of
                        None \<Rightarrow> (ea, False)
                      | Some t \<Rightarrow>
                          if associatedChannel (textures ea t) > - 1
                          then (u_bindSamplerUniformToChannel ea
                                  (associatedChannel (textures ea t)) (activeChannel ea), False)
                          else (ea, False)))"
      by (intro c) simp_all
    show ?thesis
      unfolding s
      by (cases texture)
         (auto simp: u_bindSamplerUniformToChannel_frame issued_def [of ea ea]
            split: option.splits)
  qed
  from buf prog tex show ?thesis by blast
qed

theorem rebind_is_noop_witness:
  "\<not> vaoRecordInProgress (newEngine webgl2Caps)
   \<and> issued (newEngine webgl2Caps)
       (u_bindBuffer (u_bindBuffer (newEngine webgl2Caps) (Some 0) ELEMENT_ARRAY_BUFFER)
          (Some 0) ELEMENT_ARRAY_BUFFER)
      = [BindBuffer ELEMENT_ARRAY_BUFFER (Some 0)]
   \<and> u_bindTextureDirectly (newEngine webgl2Caps) 3553 (Some 0) False False
      = Inr (projr (u_bindTextureDirectly (newEngine webgl2Caps) 3553 (Some 0) False False))
   \<and> \<not> isl (u_bindTextureDirectly
               (fst (projr (u_bindTextureDirectly (newEngine webgl2Caps) 3553 (Some 0) False False)))
               3553 (Some 0) False False)"
proof -
  note T = rebind_is_noop [where e = "newEngine webgl2Caps" and b = "Some 0" and p = None
      and t = ELEMENT_ARRAY_BUFFER and target = 3553 and texture = "Some 0" and upd = False]
  have a: "\<not> vaoRecordInProgress (newEngine webgl2Caps)"
    by (simp add: newEngine_def)
  have c: "currentBoundBuffer (newEngine webgl2Caps) ELEMENT_ARRAY_BUFFER \<noteq> Some (Some 0)"
    "underlyingResource (buffers (newEngine webgl2Caps) 0) = 0"
    by (simp_all add: newEngine_def)
  have f: "u_bindTextureDirectly (newEngine webgl2Caps) 3553 (Some 0) False False
      = Inr (projr (u_bindTextureDirectly (newEngine webgl2Caps) 3553 (Some 0) False False))"
    by (simp add: newEngine_def u_bindTextureDirectly_def Let_def u_activateCurrentTexture_def)
  then have f': "u_bindTextureDirectly (newEngine webgl2Caps) 3553 (Some 0) False False
      = Inr (fst (projr (u_bindTextureDirectly (newEngine webgl2Caps) 3553 (Some 0) False False)),
             snd (projr (u_bindTextureDirectly (newEngine webgl2Caps) 3553 (Some 0) False False)))"
    by simp
  from T a have "issued (newEngine webgl2Caps)
       (u_bindBuffer (u_bindBuffer (newEngine webgl2Caps) (Some 0) ELEMENT_ARRAY_BUFFER)
          (Some 0) ELEMENT_ARRAY_BUFFER)
      = (if currentBoundBuffer (newEngine webgl2Caps) ELEMENT_ARRAY_BUFFER \<noteq> Some (Some 0)
         then [BindBuffer ELEMENT_ARRAY_BUFFER
                 (case Some 0 of None \<Rightarrow> None
                  | Some r \<Rightarrow> Some (underlyingResource (buffers (newEngine webgl2Caps) r)))]
         else [])"
    by blast
  with c have b: "issued (newEngine webgl2Caps)
       (u_bindBuffer (u_bindBuffer (newEngine webgl2Caps) (Some 0) ELEMENT_ARRAY_BUFFER)
          (Some 0) ELEMENT_ARRAY_BUFFER)
      = [BindBuffer ELEMENT_ARRAY_BUFFER (Some 0)]"
    by simp
  from T f' have "\<exists>eb wb. u_bindTextureDirectly
               (fst (projr (u_bindTextureDirectly (newEngine webgl2Caps) 3553 (Some 0) False False)))
               3553 (Some 0) False False = Inr (eb, wb)"
    by blast
  then have d: "\<not> isl (u_bindTextureDirectly
               (fst (projr (u_bindTextureDirectly (newEngine webgl2Caps) 3553 (Some 0) False False)))
               3553 (Some 0) False False)"
    by auto
  from a b f d show ?thesis by blast
qed

text \<open>
  The claim as stated fails: while a vertex array object is recorded every buffer bind is
  issued, so two binds of one buffer issue two calls; with \<^verbatim>\<open>force\<close> a texture is bound
  again; and the second bind of a texture may issue \<^verbatim>\<open>uniform1i\<close> for its sampler.
\<close>

theorem rebind_counterexample:
  "vaoRecordInProgress ((newEngine webgl2Caps)\<lparr>vaoRecordInProgress := True\<rparr>)
   \<and> issued ((newEngine webgl2Caps)\<lparr>vaoRecordInProgress := True\<rparr>)
       (u_bindBuffer
          (u_bindBuffer ((newEngine webgl2Caps)\<lparr>vaoRecordInProgress := True\<rparr>)
             (Some 0) ARRAY_BUFFER)
          (Some 0) ARRAY_BUFFER)
      = [BindBuffer ARRAY_BUFFER (Some 0), BindBuffer ARRAY_BUFFER (Some 0)]
   \<and> map (gl \<circ> fst)
       [projr (u_bindTextureDirectly (newEngine webgl2Caps) 3553 (Some 0) False True),
        projr (u_bindTextureDirectly
                 (fst (projr (u_bindTextureDirectly (newEngine webgl2Caps) 3553 (Some 0)
                                False True)))
                 3553 (Some 0) False True)]
      = [[ActiveTexture 33984, BindTexture 3553 None],
         [ActiveTexture 33984, BindTexture 3553 None, BindTexture 3553 None]]
   \<and> map (gl \<circ> fst)
       [projr (u_bindTextureDirectly
                 ((newEngine webgl2Caps)\<lparr>boundUniforms := (\<lambda>_. None)(0 := Some 9)\<rparr>)
                 3553 (Some 0) False False),
        projr (u_bindTextureDirectly
                 (fst (projr (u_bindTextureDirectly
                    ((newEngine webgl2Caps)\<lparr>boundUniforms := (\<lambda>_. None)(0 := Some 9)\<rparr>)
                    3553 (Some 0) False False)))
                 3553 (Some 0) False False)]
      = [[ActiveTexture 33984, BindTexture 3553 None],
         [ActiveTexture 33984, BindTexture 3553 None, Uniform1i 9 0]]"
  by (simp add: newEngine_def u_bindBuffer_upd issued_def u_bindTextureDirectly_def Let_def
        u_activateCurrentTexture_def u_bindSamplerUniformToChannel_def TEXTURE0_def)


section \<open>Context loss\<close>

text \<open>
  Claim C2, as the code has it. \<^verbatim>\<open>_onContextLost\<close> records the loss in
  \<^verbatim>\<open>_contextWasLost\<close> and issues nothing. The draw and bind entry points
  (\<^verbatim>\<open>drawElementsType\<close>, \<^verbatim>\<open>drawArraysType\<close>, \<^verbatim>\<open>_bindBuffer\<close>, \<^verbatim>\<open>bindArrayBuffer\<close>,
  \<^verbatim>\<open>bindIndexBuffer\<close>, \<^verbatim>\<open>_setProgram\<close>) never read that flag: they do with the flag
  set exactly what they do without it, they have no failing branch, and a draw always
  ends with its draw call.
\<close>

theorem lost_flag_not_consulted:
  "drawElementsType (e\<lparr>contextWasLost := l\<rparr>) stateCalls fillMode indexStart indexCount n
      = (drawElementsType e stateCalls fillMode indexStart indexCount n)\<lparr>contextWasLost := l\<rparr>
   \<and> drawArraysType (e\<lparr>contextWasLost := l\<rparr>) stateCalls fillMode verticesStart verticesCount n
      = (drawArraysType e stateCalls fillMode verticesStart verticesCount n)\<lparr>contextWasLost := l\<rparr>
   \<and> u_bindBuffer (e\<lparr>contextWasLost := l\<rparr>) b t = (u_bindBuffer e b t)\<lparr>contextWasLost := l\<rparr>
   \<and> bindArrayBuffer (e\<lparr>contextWasLost := l\<rparr>) b = (bindArrayBuffer e b)\<lparr>contextWasLost := l\<rparr>
   \<and> bindIndexBuffer (e\<lparr>contextWasLost := l\<rparr>) b = (bindIndexBuffer e b)\<lparr>contextWasLost := l\<rparr>
   \<and> u_setProgram (e\<lparr>contextWasLost := l\<rparr>) p = (u_setProgram e p)\<lparr>contextWasLost := l\<rparr>
   \<and> issued e (drawElementsType e stateCalls fillMode indexStart indexCount n)
      = stateCalls
        @ (if colorWriteChanged e
           then [ColorMask (colorWrite e) (colorWrite e) (colorWrite e) (colorWrite e)] else [])
        @ [case n of
             Some k \<Rightarrow>
               if k \<noteq> 0
               then DrawElementsInstanced (u_drawMode fillMode) indexCount
                      (if uintIndicesCurrentlySet e then UNSIGNED_INT else UNSIGNED_SHORT)
                      (indexStart * (if uintIndicesCurrentlySet e then 4 else 2)) k
               else DrawElements (u_drawMode fillMode) indexCount
                      (if uintIndicesCurrentlySet e then UNSIGNED_INT else UNSIGNED_SHORT)
                      (indexStart * (if uintIndicesCurrentlySet e then 4 else 2))
           | None \<Rightarrow>
               DrawElements (u_drawMode fillMode) indexCount
                 (if uintIndicesCurrentlySet e then UNSIGNED_INT else UNSIGNED_SHORT)
                 (indexStart * (if uintIndicesCurrentlySet e then 4 else 2))]
   \<and> issued e (drawArraysType e stateCalls fillMode verticesStart verticesCount n)
      = stateCalls
        @ (if colorWriteChanged e
           then [ColorMask (colorWrite e) (colorWrite e) (colorWrite e) (colorWrite e)] else [])
        @ [case n of
             Some k \<Rightarrow>
               if k \<noteq> 0
               then DrawArraysInstanced (u_drawMode fillMode) verticesStart verticesCount k
               else DrawArrays (u_drawMode fillMode) verticesStart verticesCount
           | None \<Rightarrow> DrawArrays (u_drawMode fillMode) verticesStart verticesCount]
   \<and> contextWasLost (u_onContextLost e)
        = (if doNotHandleContextLost e then contextWasLost e else True)
   \<and> gl (u_onContextLost e) = gl e"
proof -
  have de: "drawElementsType (e\<lparr>contextWasLost := l\<rparr>) stateCalls fillMode indexStart indexCount n
      = (drawElementsType e stateCalls fillMode indexStart indexCount n)\<lparr>contextWasLost := l\<rparr>"
    by (cases n) (simp_all add: drawElementsType_def applyStates_upd Let_def)
  have da: "drawArraysType (e\<lparr>contextWasLost := l\<rparr>) stateCalls fillMode verticesStart verticesCount n
      = (drawArraysType e stateCalls fillMode verticesStart verticesCount n)\<lparr>contextWasLost := l\<rparr>"
    by (cases n) (simp_all add: drawArraysType_def applyStates_upd Let_def)
  have bb: "u_bindBuffer (e\<lparr>contextWasLost := l\<rparr>) b t = (u_bindBuffer e b t)\<lparr>contextWasLost := l\<rparr>"
    by (cases b) (simp_all add: u_bindBuffer_upd)
  have ba: "bindArrayBuffer (e\<lparr>contextWasLost := l\<rparr>) b = (bindArrayBuffer e b)\<lparr>contextWasLost := l\<rparr>"
    by (cases b) (simp_all add: bindArrayBuffer_upd)
  have bi: "bindIndexBuffer (e\<lparr>contextWasLost := l\<rparr>) b = (bindIndexBuffer e b)\<lparr>contextWasLost := l\<rparr>"
    by (cases b) (simp_all add: bindIndexBuffer_upd)
  have sp: "u_setProgram (e\<lparr>contextWasLost := l\<rparr>) p = (u_setProgram e p)\<lparr>contextWasLost := l\<rparr>"
    by (simp add: u_setProgram_upd)
  have ie: "issued e (drawElementsType e stateCalls fillMode indexStart indexCount n)
      = stateCalls
        @ (if colorWriteChanged e
           then [ColorMask (colorWrite e) (colorWrite e) (colorWrite e) (colorWrite e)] else [])
        @ [case n of
             Some k \<Rightarrow>
               if k \<noteq> 0
               then DrawElementsInstanced (u_drawMode fillMode) indexCount
                      (if uintIndicesCurrentlySet e then UNSIGNED_INT else UNSIGNED_SHORT)
                      (indexStart * (if uintIndicesCurrentlySet e then 4 else 2)) k
               else DrawElements (u_drawMode fillMode) indexCount
                      (if uintIndicesCurrentlySet e then UNSIGNED_INT else UNSIGNED_SHORT)
                      (indexStart * (if uintIndicesCurrentlySet e then 4 else 2))
           | None \<Rightarrow>
               DrawElements (u_drawMode fillMode) indexCount
                 (if uintIndicesCurrentlySet e then UNSIGNED_INT else UNSIGNED_SHORT)
                 (indexStart * (if uintIndicesCurrentlySet e then 4 else 2))]"
    by (cases n) (simp_all add: drawElementsType_def applyStates_upd Let_def issued_def)
  have ia: "issued e (drawArraysType e stateCalls fillMode verticesStart verticesCount n)
      = stateCalls
        @ (if colorWriteChanged e
           then [ColorMask (colorWrite e) (colorWrite e) (colorWrite e) (colorWrite e)] else [])
        @ [case n of
             Some k \<Rightarrow>
               if k \<noteq> 0
               then DrawArraysInstanced (u_drawMode fillMode) verticesStart verticesCount k
               else DrawArrays (u_drawMode fillMode) verticesStart verticesCount
           | None \<Rightarrow> DrawArrays (u_drawMode fillMode) verticesStart verticesCount]"
    by (cases n) (simp_all add: drawArraysType_def applyStates_upd Let_def issued_def)
  have cl: "contextWasLost (u_onContextLost e)
        = (if doNotHandleContextLost e then contextWasLost e else True)
     \<and> gl (u_onContextLost e) = gl e"
    by (simp add: u_onContextLost_def)
  from de da bb ba bi sp ie ia cl show ?thesis by blast
qed

theorem lost_flag_not_consulted_witness:
  "drawElementsType ((newEngine webgl2Caps)\<lparr>contextWasLost := True\<rparr>) []
      MATERIAL_TriangleFillMode 0 6 None
     = (drawElementsType (newEngine webgl2Caps) [] MATERIAL_TriangleFillMode 0 6 None)
         \<lparr>contextWasLost := True\<rparr>
   \<and> u_bindBuffer ((newEngine webgl2Caps)\<lparr>contextWasLost := True\<rparr>) (Some 0) ARRAY_BUFFER
     = (u_bindBuffer (newEngine webgl2Caps) (Some 0) ARRAY_BUFFER)\<lparr>contextWasLost := True\<rparr>"
  using lost_flag_not_consulted [where e = "newEngine webgl2Caps" and l = True
      and stateCalls = "[]" and fillMode = MATERIAL_TriangleFillMode and indexStart = 0
      and indexCount = 6 and n = None and b = "Some 0" and t = ARRAY_BUFFER]
  by blast

text \<open>
  The claim as stated fails: after the loss has been signalled, a draw and a bind issue
  their driver calls as before.
\<close>

theorem lost_context_counterexample:
  "contextWasLost (u_onContextLost (newEngine webgl2Caps))
   \<and> issued (u_onContextLost (newEngine webgl2Caps))
       (drawElementsType (u_onContextLost (newEngine webgl2Caps)) []
          MATERIAL_TriangleFillMode 0 6 None)
      = [ColorMask True True True True, DrawElements TRIANGLES 6 UNSIGNED_SHORT 0]
   \<and> issued (u_onContextLost (newEngine webgl2Caps))
       (drawArraysType (u_onContextLost (newEngine webgl2Caps)) []
          MATERIAL_TriangleFillMode 0 3 None)
      = [ColorMask True True True True, DrawArrays TRIANGLES 0 3]
   \<and> issued (u_onContextLost (newEngine webgl2Caps))
       (u_bindBuffer (u_onContextLost (newEngine webgl2Caps)) (Some 0) ARRAY_BUFFER)
      = [BindBuffer ARRAY_BUFFER (Some 0)]"
  by (simp add: u_onContextLost_def newEngine_def drawElementsType_def drawArraysType_def
        applyStates_upd Let_def issued_def u_bindBuffer_upd)

section \<open>Binding vertex buffers without an index buffer\<close>

lemma keepsIndexBinding_refl: "keepsIndexBinding e e"
  by (simp add: keepsIndexBinding_def)

lemma keepsIndexBinding_trans:
  "keepsIndexBinding e ea \<Longrightarrow> keepsIndexBinding ea eb \<Longrightarrow> keepsIndexBinding e eb"
  by (auto simp: keepsIndexBinding_def)

lemma keepsIndexBinding_field:
  "keepsIndexBinding e (e\<lparr>cachedVertexBuffers := x\<rparr>)"
  "keepsIndexBinding e (e\<lparr>cachedEffectForVertexBuffers := y\<rparr>)"
  "keepsIndexBinding e (e\<lparr>vertexAttribArraysEnabled := a\<rparr>)"
  "keepsIndexBinding e (e\<lparr>currentBufferPointers := p\<rparr>)"
  "keepsIndexBinding e (e\<lparr>currentInstanceLocations := il, currentInstanceBuffers := ib\<rparr>)"
  "\<not> isElementArrayBind c \<Longrightarrow> keepsIndexBinding e (e\<lparr>gl := gl e @ [c]\<rparr>)"
  by (simp_all add: keepsIndexBinding_def)

lemma keeps_unbindVertexArrayObject: "keepsIndexBinding e (u_unbindVertexArrayObject e)"
  by (simp add: keepsIndexBinding_def u_unbindVertexArrayObject_upd)

lemma keeps_bindArrayBuffer: "keepsIndexBinding e (bindArrayBuffer e b)"
  by (simp add: keepsIndexBinding_def bindArrayBuffer_upd)

lemma keeps_vertexAttribPointer:
  "keepsIndexBinding e (u_vertexAttribPointer e buf indx sz ty norm strd offs)"
proof (cases "indx \<ge> length (currentBufferPointers e)")
  case True
  then show ?thesis by (simp add: u_vertexAttribPointer_def keepsIndexBinding_refl)
next
  case False
  then show ?thesis
    by (simp add: u_vertexAttribPointer_def Let_def keepsIndexBinding_def bindArrayBuffer_upd)
qed

lemma keeps_step:
  "keepsIndexBinding e x \<Longrightarrow> \<not> isElementArrayBind c \<Longrightarrow> keepsIndexBinding e (x\<lparr>gl := gl x @ [c]\<rparr>)"
  "keepsIndexBinding e x \<Longrightarrow> keepsIndexBinding e (x\<lparr>vertexAttribArraysEnabled := a\<rparr>)"
  "keepsIndexBinding e x \<Longrightarrow>
     keepsIndexBinding e (x\<lparr>currentInstanceLocations := il, currentInstanceBuffers := ib\<rparr>)"
  "keepsIndexBinding e x \<Longrightarrow>
     keepsIndexBinding e (u_vertexAttribPointer x buf indx sz ty norm strd offs)"
  by (blast intro: keepsIndexBinding_trans keepsIndexBinding_field keeps_vertexAttribPointer)+

lemma keeps_bindAttribute_body:
  "keepsIndexBinding e
     (let e1 = e\<lparr>gl := gl e @ [EnableVertexAttribArray order]\<rparr>;
          e2 = (if \<not> vaoRecordInProgress e1
                then e1\<lparr>vertexAttribArraysEnabled :=
                       jsArraySet (vertexAttribArraysEnabled e1) order True\<rparr>
                else e1)
      in case getBuffer vb of
           None \<Rightarrow> e2
         | Some buf \<Rightarrow>
            (let e3 = u_vertexAttribPointer e2 buf order (getSize vb)
                        (vbType vb) (vbNormalized vb) (byteStride vb) (byteOffset vb)
             in if getIsInstanced vb then
                  (let e4 = e3\<lparr>gl := gl e3 @
                              [VertexAttribDivisor order (getInstanceDivisor vb)]\<rparr>
                   in if \<not> vaoRecordInProgress e4
                      then e4\<lparr>currentInstanceLocations :=
                                currentInstanceLocations e4 @ [order],
                              currentInstanceBuffers :=
                                currentInstanceBuffers e4 @ [buf]\<rparr>
                      else e4)
                else e3))"
proof -
  define e1 where "e1 = e\<lparr>gl := gl e @ [EnableVertexAttribArray order]\<rparr>"
  define e2 where "e2 = (if \<not> vaoRecordInProgress e1
                then e1\<lparr>vertexAttribArraysEnabled :=
                       jsArraySet (vertexAttribArraysEnabled e1) order True\<rparr>
                else e1)"
  have k1: "keepsIndexBinding e e1"
    unfolding e1_def by (rule keeps_step(1) [OF keepsIndexBinding_refl]) simp
  have k2: "keepsIndexBinding e e2"
    unfolding e2_def using k1 by (simp add: keeps_step(2))
  have k3: "keepsIndexBinding e (u_vertexAttribPointer e2 buf order (getSize vb)
                        (vbType vb) (vbNormalized vb) (byteStride vb) (byteOffset vb))" for buf
    using k2 by (rule keeps_step(4))
  have k4: "keepsIndexBinding e (x\<lparr>gl := gl x @ [VertexAttribDivisor order d]\<rparr>)"
    if "keepsIndexBinding e x" for x d
    using that by (rule keeps_step(1)) simp
  show ?thesis
    unfolding Let_def e1_def [symmetric] e2_def [symmetric]
    by (cases "getBuffer vb") (simp_all add: k2 k3 k4 keeps_step(3))
qed

lemma keeps_bindAttribute:
  "keepsIndexBinding e (bindAttribute e vertexBuffers ef ov i ai)"
proof (cases "getAttributeLocation ef i")
  case None
  then show ?thesis by (simp add: bindAttribute_def keepsIndexBinding_refl)
next
  case (Some order)
  show ?thesis
  proof (cases "order \<ge> 0")
    case False
    with Some show ?thesis by (simp add: bindAttribute_def keepsIndexBinding_refl)
  next
    case True
    show ?thesis
    proof (cases "case (case ov of None \<Rightarrow> None | Some o' \<Rightarrow> o' ai) of
                    None \<Rightarrow> vertexBuffers ai | Some vb \<Rightarrow> Some vb")
      case None
      with Some True show ?thesis
        by (simp add: bindAttribute_def Let_def keepsIndexBinding_refl)
    next
      case (Some vb)
      with \<open>getAttributeLocation ef i = Some order\<close> True
      show ?thesis
        using keeps_bindAttribute_body [of e "nat order" vb]
        by (simp add: bindAttribute_def Let_def)
    qed
  qed
qed

lemma keeps_bindAttributesLoop:
  "keepsIndexBinding e (bindAttributesLoop e vertexBuffers ef ov i names)"
proof (induction names arbitrary: e i)
  case Nil
  then show ?case by (simp add: keepsIndexBinding_refl)
next
  case (Cons ai rest)
  show ?case
    using keepsIndexBinding_trans [OF keeps_bindAttribute Cons.IH] by simp
qed

lemma isDisable_not_elementBind: "list_all isDisable cs \<Longrightarrow> filter isElementArrayBind cs = []"
proof (induction cs)
  case Nil
  then show ?case by simp
next
  case (Cons c cs)
  then show ?case by (cases c) simp_all
qed

lemma keeps_unbindAllAttributes:
  assumes "unbindAllAttributes e = Inr e'"
  shows "keepsIndexBinding e e'"
proof -
  from unbindAllAttributes_frame [OF assms] obtain a p cs where
    "e' = e\<lparr>mustWipeVertexAttributes := False, vertexAttribArraysEnabled := a,
            currentBufferPointers := p, gl := gl e @ cs\<rparr>" and "list_all isDisable cs"
    by blast
  then show ?thesis
    by (simp add: keepsIndexBinding_def isDisable_not_elementBind)
qed

lemma keeps_bindVertexBuffersAttributes:
  assumes "u_bindVertexBuffersAttributes e vertexBuffers effectRef ov = Inr e'"
  shows "keepsIndexBinding e e'"
proof -
  define e1 where "e1 = (if \<not> vaoRecordInProgress e then u_unbindVertexArrayObject e else e)"
  have k1: "keepsIndexBinding e e1"
    by (simp add: e1_def keeps_unbindVertexArrayObject keepsIndexBinding_refl)
  from assms obtain e2 where u: "unbindAllAttributes e1 = Inr e2"
    and e': "e' = bindAttributesLoop e2 vertexBuffers (effects e effectRef) ov 0
                    (attributesNames (effects e effectRef))"
    by (auto simp: u_bindVertexBuffersAttributes_def Let_def e1_def split: sum.splits)
  from keepsIndexBinding_trans [OF k1 keeps_unbindAllAttributes [OF u]]
  have "keepsIndexBinding e e2" .
  from keepsIndexBinding_trans [OF this keeps_bindAttributesLoop] show ?thesis
    unfolding e' .
qed

lemma bindVertexBuffersAttributes_succeeds:
  assumes "maxVertexAttribs (caps e) \<le> length (currentBufferPointers e)"
  shows "\<exists>e'. u_bindVertexBuffersAttributes e vertexBuffers effectRef ov = Inr e'"
proof -
  define e1 where "e1 = (if \<not> vaoRecordInProgress e then u_unbindVertexArrayObject e else e)"
  have "maxVertexAttribs (caps e1) \<le> length (currentBufferPointers e1)"
    using assms by (simp add: e1_def u_unbindVertexArrayObject_upd)
  from unbindAllAttributes_succeeds [OF this] obtain e2 where "unbindAllAttributes e1 = Inr e2"
    by blast
  then show ?thesis
    by (simp add: u_bindVertexBuffersAttributes_def Let_def e1_def)
qed

text \<open>
  Claim C9. \<^verbatim>\<open>_bindIndexBufferWithCache(null)\<close> changes nothing at all. \<^verbatim>\<open>bindBuffers\<close>
  with a \<^verbatim>\<open>null\<close> index buffer, whenever it returns, has issued no bind on the element
  array target and has left the cached index buffer, the 32-bit index flag and the cached
  element array binding unchanged, so that the next indexed draw issues the same draw
  call, with the same element type and offset, as it would have before. It does return
  when every vertex attribute has its pointer.
\<close>

theorem null_index_buffer_keeps_binding:
  "u_bindIndexBufferWithCache e None = e
   \<and> (bindBuffers e vbRef vertexBuffers None effectRef ov = Inr e' \<longrightarrow>
        cachedIndexBuffer e' = cachedIndexBuffer e
      \<and> uintIndicesCurrentlySet e' = uintIndicesCurrentlySet e
      \<and> currentBoundBuffer e' ELEMENT_ARRAY_BUFFER = currentBoundBuffer e ELEMENT_ARRAY_BUFFER
      \<and> filter isElementArrayBind (issued e e') = []
      \<and> last (gl (drawElementsType e' [] fillMode indexStart indexCount n))
          = last (gl (drawElementsType e [] fillMode indexStart indexCount n)))
   \<and> (maxVertexAttribs (caps e) \<le> length (currentBufferPointers e) \<longrightarrow>
        (\<exists>eb. bindBuffers e vbRef vertexBuffers None effectRef ov = Inr eb))"
proof -
  have n: "u_bindIndexBufferWithCache x None = x" for x
    by (simp add: u_bindIndexBufferWithCache_def)
  have k: "keepsIndexBinding e e'"
    if b: "bindBuffers e vbRef vertexBuffers None effectRef ov = Inr e'"
  proof (cases "cachedVertexBuffers e \<noteq> Some vbRef
               \<or> cachedEffectForVertexBuffers e \<noteq> Some effectRef")
    case False
    with b have "e' = e" by (simp add: bindBuffers_def n)
    then show ?thesis by (simp add: keepsIndexBinding_refl)
  next
    case True
    with b have "u_bindVertexBuffersAttributes
                   (e\<lparr>cachedVertexBuffers := Some vbRef,
                      cachedEffectForVertexBuffers := Some effectRef\<rparr>)
                   vertexBuffers effectRef ov = Inr e'"
      by (auto simp: bindBuffers_def n split: sum.splits if_splits)
    from keeps_bindVertexBuffersAttributes [OF this]
    have "keepsIndexBinding (e\<lparr>cachedVertexBuffers := Some vbRef,
                      cachedEffectForVertexBuffers := Some effectRef\<rparr>) e'" .
    then show ?thesis by (simp add: keepsIndexBinding_def)
  qed
  have concl: "cachedIndexBuffer e' = cachedIndexBuffer e
      \<and> uintIndicesCurrentlySet e' = uintIndicesCurrentlySet e
      \<and> currentBoundBuffer e' ELEMENT_ARRAY_BUFFER = currentBoundBuffer e ELEMENT_ARRAY_BUFFER
      \<and> filter isElementArrayBind (issued e e') = []
      \<and> last (gl (drawElementsType e' [] fillMode indexStart indexCount n))
          = last (gl (drawElementsType e [] fillMode indexStart indexCount n))"
    if b: "bindBuffers e vbRef vertexBuffers None effectRef ov = Inr e'"
  proof -
    from k [OF b] obtain cs where f: "cachedIndexBuffer e' = cachedIndexBuffer e"
      "uintIndicesCurrentlySet e' = uintIndicesCurrentlySet e"
      "currentBoundBuffer e' ELEMENT_ARRAY_BUFFER = currentBoundBuffer e ELEMENT_ARRAY_BUFFER"
      "gl e' = gl e @ cs" "filter isElementArrayBind cs = []"
      by (auto simp: keepsIndexBinding_def)
    have d: "last (gl (drawElementsType x [] fillMode indexStart indexCount n))
        = (case n of
             Some k \<Rightarrow>
               if k \<noteq> 0
               then DrawElementsInstanced (u_drawMode fillMode) indexCount
                      (if uintIndicesCurrentlySet x then UNSIGNED_INT else UNSIGNED_SHORT)
                      (indexStart * (if uintIndicesCurrentlySet x then 4 else 2)) k
               else DrawElements (u_drawMode fillMode) indexCount
                      (if uintIndicesCurrentlySet x then UNSIGNED_INT else UNSIGNED_SHORT)
                      (indexStart * (if uintIndicesCurrentlySet x then 4 else 2))
           | None \<Rightarrow>
               DrawElements (u_drawMode fillMode) indexCount
                 (if uintIndicesCurrentlySet x then UNSIGNED_INT else UNSIGNED_SHORT)
                 (indexStart * (if uintIndicesCurrentlySet x then 4 else 2)))" for x
      by (cases n) (simp_all add: drawElementsType_def applyStates_upd Let_def)
    show ?thesis using f by (simp add: issued_def d)
  qed
  have ex: "\<exists>eb. bindBuffers e vbRef vertexBuffers None effectRef ov = Inr eb"
    if "maxVertexAttribs (caps e) \<le> length (currentBufferPointers e)"
  proof (cases "cachedVertexBuffers e \<noteq> Some vbRef
               \<or> cachedEffectForVertexBuffers e \<noteq> Some effectRef")
    case False
    then show ?thesis by (simp add: bindBuffers_def)
  next
    case True
    have "maxVertexAttribs (caps (e\<lparr>cachedVertexBuffers := Some vbRef,
                      cachedEffectForVertexBuffers := Some effectRef\<rparr>))
          \<le> length (currentBufferPointers (e\<lparr>cachedVertexBuffers := Some vbRef,
                      cachedEffectForVertexBuffers := Some effectRef\<rparr>))"
      using that by simp
    from bindVertexBuffersAttributes_succeeds [OF this, of vertexBuffers effectRef ov]
    obtain ea where "u_bindVertexBuffersAttributes
                   (e\<lparr>cachedVertexBuffers := Some vbRef,
                      cachedEffectForVertexBuffers := Some effectRef\<rparr>)
                   vertexBuffers effectRef ov = Inr ea" by blast
    with True show ?thesis by (simp add: bindBuffers_def)
  qed
  from n concl ex show ?thesis by blast
qed

theorem null_index_buffer_keeps_binding_witness:
  "maxVertexAttribs (caps (newEngine webgl2Caps))
      \<le> length (currentBufferPointers (newEngine webgl2Caps))
   \<and> bindBuffers (newEngine webgl2Caps) 1 (\<lambda>_. None) None 0 None
      = Inr (projr (bindBuffers (newEngine webgl2Caps) 1 (\<lambda>_. None) None 0 None))
   \<and> cachedIndexBuffer (projr (bindBuffers (newEngine webgl2Caps) 1 (\<lambda>_. None) None 0 None))
      = cachedIndexBuffer (newEngine webgl2Caps)
   \<and> filter isElementArrayBind
        (issued (newEngine webgl2Caps)
           (projr (bindBuffers (newEngine webgl2Caps) 1 (\<lambda>_. None) None 0 None))) = []"
proof -
  note T = null_index_buffer_keeps_binding [where e = "newEngine webgl2Caps" and vbRef = 1
      and vertexBuffers = "\<lambda>_. None" and effectRef = 0 and ov = None
      and e' = "projr (bindBuffers (newEngine webgl2Caps) 1 (\<lambda>_. None) None 0 None)"
      and fillMode = MATERIAL_TriangleFillMode and indexStart = 0 and indexCount = 6
      and n = None]
  have l: "maxVertexAttribs (caps (newEngine webgl2Caps))
      \<le> length (currentBufferPointers (newEngine webgl2Caps))"
    by (simp add: newEngine_def)
  with T obtain eb where "bindBuffers (newEngine webgl2Caps) 1 (\<lambda>_. None) None 0 None = Inr eb"
    by blast
  then have r: "bindBuffers (newEngine webgl2Caps) 1 (\<lambda>_. None) None 0 None
      = Inr (projr (bindBuffers (newEngine webgl2Caps) 1 (\<lambda>_. None) None 0 None))"
    by simp
  from T r l show ?thesis by blast
qed

section \<open>Memoized effects\<close>

lemma createEffect_hit:
  "compiledEffects e (effectName g b opts d) = Some r \<Longrightarrow>
   createEffect e g b opts d =
     (e\<lparr>effects := (effects e)(r := (effects e r)\<lparr>refCount := refCount (effects e r) + 1\<rparr>)\<rparr>, r)"
  by (simp add: createEffect_def Let_def)

lemma createEffect_miss:
  "compiledEffects e (effectName g b opts d) = None \<Longrightarrow>
   createEffect e g b opts d =
     (e\<lparr>effects := (effects e)(nextEffect e :=
            \<lparr>key = effectName g b opts d, refCount = 1,
             attributesNames = (case opts of AttributesNames names \<Rightarrow> names
                                | Options os \<Rightarrow> attributes os),
             attributeLocations = []\<rparr>),
        nextEffect := Suc (nextEffect e),
        compiledEffects := (compiledEffects e)(effectName g b opts d := Some (nextEffect e))\<rparr>,
      nextEffect e)"
  by (simp add: createEffect_def Let_def new_Effect_def)

lemma createEffect_registers:
  "compiledEffects (fst (createEffect e g b opts d)) (effectName g b opts d)
     = Some (snd (createEffect e g b opts d))"
  by (cases "compiledEffects e (effectName g b opts d)")
     (simp_all add: createEffect_hit createEffect_miss)

lemma createEffect_wellFormed:
  assumes "effectsWellFormed e"
  shows "effectsWellFormed (fst (createEffect e g b opts d))"
proof (cases "compiledEffects e (effectName g b opts d)")
  case None
  show ?thesis
    using assms unfolding effectsWellFormed_def createEffect_miss [OF None]
    by (auto simp: less_Suc_eq)
next
  case (Some r)
  show ?thesis
    using assms unfolding effectsWellFormed_def createEffect_hit [OF Some]
    by auto
qed

lemma newEngine_wellFormed: "effectsWellFormed (newEngine c)"
  by (simp add: effectsWellFormed_def newEngine_def)

lemma effectName_same:
  "vertexOf b1 = vertexOf b2 \<Longrightarrow> fragmentOf b1 = fragmentOf b2 \<Longrightarrow>
     (effectName g b1 o1 d1 = effectName g b2 o2 d2)
       = (fullDefinesOf g o1 d1 = fullDefinesOf g o2 d2)"
  by (simp add: effectName_def)

text \<open>
  Claim C4, as the code has it. The key of an effect is the vertex source id, the
  character \<^verbatim>\<open>+\<close>, the fragment source id, the character \<^verbatim>\<open>@\<close> and the fully expanded
  defines (the defines followed by the global defines). In an engine whose table is well
  formed, a first \<^verbatim>\<open>createEffect\<close> returns an effect stored under that key; a second call
  with the same vertex and fragment ids and the same expanded defines returns the same
  object, increments its reference count and creates nothing; a second call whose expanded
  defines differ returns another object.
\<close>

theorem effect_memoization:
  assumes wf: "effectsWellFormed e"
    and first: "createEffect e g b1 o1 d1 = (ea, ra)"
    and second: "createEffect ea g b2 o2 d2 = (eb, rb)"
    and same: "vertexOf b1 = vertexOf b2" "fragmentOf b1 = fragmentOf b2"
  shows "key (effects ea ra)
           = vertexOf b1 @ ''+'' @ fragmentOf b1 @ ''@'' @ fullDefinesOf g o1 d1
     \<and> compiledEffects ea (vertexOf b1 @ ''+'' @ fragmentOf b1 @ ''@'' @ fullDefinesOf g o1 d1)
           = Some ra
     \<and> (fullDefinesOf g o1 d1 = fullDefinesOf g o2 d2 \<longrightarrow>
           rb = ra
         \<and> refCount (effects eb ra) = refCount (effects ea ra) + 1
         \<and> nextEffect eb = nextEffect ea
         \<and> compiledEffects eb = compiledEffects ea)
     \<and> (fullDefinesOf g o1 d1 \<noteq> fullDefinesOf g o2 d2 \<longrightarrow> rb \<noteq> ra)"
proof -
  from first have ea: "ea = fst (createEffect e g b1 o1 d1)" and ra: "ra = snd (createEffect e g b1 o1 d1)"
    by simp_all
  have reg: "compiledEffects ea (effectName g b1 o1 d1) = Some ra"
    unfolding ea ra by (rule createEffect_registers)
  have wfa: "effectsWellFormed ea"
    unfolding ea using wf by (rule createEffect_wellFormed)
  from wfa reg have k: "key (effects ea ra) = effectName g b1 o1 d1" and lt: "ra < nextEffect ea"
    by (auto simp: effectsWellFormed_def)
  have hit: "rb = ra \<and> refCount (effects eb ra) = refCount (effects ea ra) + 1
         \<and> nextEffect eb = nextEffect ea \<and> compiledEffects eb = compiledEffects ea"
    if "fullDefinesOf g o1 d1 = fullDefinesOf g o2 d2"
  proof -
    from that same have "effectName g b2 o2 d2 = effectName g b1 o1 d1"
      by (simp add: effectName_def)
    with reg have "compiledEffects ea (effectName g b2 o2 d2) = Some ra" by simp
    from createEffect_hit [OF this] second show ?thesis by auto
  qed
  have miss: "rb \<noteq> ra" if d: "fullDefinesOf g o1 d1 \<noteq> fullDefinesOf g o2 d2"
  proof (cases "compiledEffects ea (effectName g b2 o2 d2)")
    case None
    from createEffect_miss [OF None] second have "rb = nextEffect ea" by auto
    with lt show ?thesis by simp
  next
    case (Some r)
    from createEffect_hit [OF Some] second have "rb = r" by auto
    moreover from wfa Some have "key (effects ea r) = effectName g b2 o2 d2"
      by (auto simp: effectsWellFormed_def)
    moreover from d same have "effectName g b2 o2 d2 \<noteq> effectName g b1 o1 d1"
      by (simp add: effectName_def)
    ultimately show ?thesis using k by auto
  qed
  from k reg hit miss show ?thesis by (simp add: effectName_def)
qed

theorem effect_memoization_witness:
  "effectsWellFormed (newEngine webgl2Caps)
   \<and> snd (createEffect (newEngine webgl2Caps) ''#define R'' (BaseName ''pbr'')
            (AttributesNames [''position'']) (Some ''#define A'')) = 0
   \<and> key (effects (fst (createEffect (newEngine webgl2Caps) ''#define R'' (BaseName ''pbr'')
                            (AttributesNames [''position'']) (Some ''#define A''))) 0)
        = ''pbr+pbr@#define A#define R''
   \<and> snd (createEffect
            (fst (createEffect (newEngine webgl2Caps) ''#define R'' (BaseName ''pbr'')
                    (AttributesNames [''position'']) (Some ''#define A'')))
            ''#define R'' (BaseName ''pbr'') (AttributesNames [''position''])
            (Some ''#define A'')) = 0
   \<and> snd (createEffect
            (fst (createEffect (newEngine webgl2Caps) ''#define R'' (BaseName ''pbr'')
                    (AttributesNames [''position'']) (Some ''#define A'')))
            ''#define R'' (BaseName ''pbr'') (AttributesNames [''position''])
            (Some ''#define B'')) \<noteq> 0"
proof -
  let ?c = "createEffect (newEngine webgl2Caps) ''#define R'' (BaseName ''pbr'')
              (AttributesNames [''position'']) (Some ''#define A'')"
  have c: "?c = (fst ?c, 0)"
    by (simp add: createEffect_def Let_def new_Effect_def newEngine_def)
  have s1: "createEffect (fst ?c) ''#define R'' (BaseName ''pbr'') (AttributesNames [''position''])
              (Some ''#define A'')
            = (fst (createEffect (fst ?c) ''#define R'' (BaseName ''pbr'')
                      (AttributesNames [''position'']) (Some ''#define A'')),
               snd (createEffect (fst ?c) ''#define R'' (BaseName ''pbr'')
                      (AttributesNames [''position'']) (Some ''#define A'')))"
    by simp
  have s2: "createEffect (fst ?c) ''#define R'' (BaseName ''pbr'') (AttributesNames [''position''])
              (Some ''#define B'')
            = (fst (createEffect (fst ?c) ''#define R'' (BaseName ''pbr'')
                      (AttributesNames [''position'']) (Some ''#define B'')),
               snd (createEffect (fst ?c) ''#define R'' (BaseName ''pbr'')
                      (AttributesNames [''position'']) (Some ''#define B'')))"
    by simp
  have f: "fullDefinesOf ''#define R'' (AttributesNames [''position'']) (Some ''#define A'')
             = ''#define A#define R''"
    "fullDefinesOf ''#define R'' (AttributesNames [''position'']) (Some ''#define B'')
             = ''#define B#define R''"
    "vertexOf (BaseName ''pbr'') = ''pbr''" "fragmentOf (BaseName ''pbr'') = ''pbr''"
    by (simp_all add: fullDefinesOf_def vertexOf_def fragmentOf_def)
  note A = effect_memoization [OF newEngine_wellFormed c s1 refl refl]
  note B = effect_memoization [OF newEngine_wellFormed c s2 refl refl]
  from A have k: "key (effects (fst ?c) 0) = ''pbr+pbr@#define A#define R''"
    by (simp add: f)
  from A have h: "snd (createEffect (fst ?c) ''#define R'' (BaseName ''pbr'')
                      (AttributesNames [''position'']) (Some ''#define A'')) = 0"
    by simp
  from B have m: "snd (createEffect (fst ?c) ''#define R'' (BaseName ''pbr'')
                      (AttributesNames [''position'']) (Some ''#define B'')) \<noteq> 0"
    by (simp add: f)
  from c have z: "snd ?c = 0" by (metis snd_conv)
  from newEngine_wellFormed [of webgl2Caps] z k h m show ?thesis by blast
qed

text \<open>
  The claim as stated gives the key without the \<^verbatim>\<open>+\<close> between the two ids: for the base
  name \<^verbatim>\<open>a\<close> and no defines the key is \<^verbatim>\<open>a+a@\<close>, and nothing is stored under \<^verbatim>\<open>aa@\<close>.
\<close>

theorem effect_key_counterexample:
  "vertexOf (BaseName ''a'') = ''a'' \<and> fragmentOf (BaseName ''a'') = ''a''
   \<and> fullDefinesOf [] (AttributesNames []) None = []
   \<and> key (effects (fst (createEffect (newEngine webgl2Caps) [] (BaseName ''a'')
                            (AttributesNames []) None))
             (snd (createEffect (newEngine webgl2Caps) [] (BaseName ''a'')
                            (AttributesNames []) None)))
        = ''a+a@''
   \<and> ''a+a@'' \<noteq> ''a'' @ ''a'' @ ''@'' @ []
   \<and> compiledEffects (fst (createEffect (newEngine webgl2Caps) [] (BaseName ''a'')
                            (AttributesNames []) None)) (''a'' @ ''a'' @ ''@'' @ []) = None"
  by (simp add: createEffect_def Let_def new_Effect_def newEngine_def effectName_def
        vertexOf_def fragmentOf_def fullDefinesOf_def)


section \<open>Floating-point textures without linear filtering\<close>

text \<open>
  Claim C8, as the code has it. When the type of the texture is float (half float) and
  the capability record lacks linear filtering of float (half float) textures, the
  sampling mode becomes nearest-neighbour, and nothing is thrown: this part of
  \<^verbatim>\<open>_createInternalTexture\<close> has no failing branch and issues no driver call. No warning is
  logged for that downgrade: the only warning is logged when float textures themselves
  are not supported, and then the type is forced to unsigned byte.
\<close>

theorem float_filtering_downgrade:
  "(textureType (readTextureOptions options) = TEXTURETYPE_FLOAT
      \<and> \<not> textureFloatLinearFiltering (caps e)
     \<longrightarrow> samplingMode (snd (u_createInternalTexture_options e options))
           = TEXTURE_NEAREST_SAMPLINGMODE)
   \<and> (textureType (readTextureOptions options) = TEXTURETYPE_HALF_FLOAT
      \<and> \<not> textureHalfFloatLinearFiltering (caps e)
     \<longrightarrow> samplingMode (snd (u_createInternalTexture_options e options))
           = TEXTURE_NEAREST_SAMPLINGMODE)
   \<and> warnings (fst (u_createInternalTexture_options e options))
       = warnings e @
           (if textureType (readTextureOptions options) = TEXTURETYPE_FLOAT
               \<and> \<not> textureFloat (caps e)
            then [''Float textures are not supported. Type forced to TEXTURETYPE_UNSIGNED_BYTE'']
            else [])
   \<and> textureType (snd (u_createInternalTexture_options e options))
       = (if textureType (readTextureOptions options) = TEXTURETYPE_FLOAT
             \<and> \<not> textureFloat (caps e)
          then TEXTURETYPE_UNSIGNED_BYTE else textureType (readTextureOptions options))
   \<and> gl (fst (u_createInternalTexture_options e options)) = gl e"
  by (simp add: u_createInternalTexture_options_def Let_def)

theorem float_filtering_downgrade_witness:
  "textureType (readTextureOptions (TextureOptions
       \<lparr>optGenerateMipMaps = None, optCreateMipMaps = None, optType = Some TEXTURETYPE_FLOAT,
        optSamplingMode = None, optFormat = None, optUseSRGBBuffer = None, optSamples = None,
        optCreateMSAATexture = None, optComparisonFunction = None\<rparr>)) = TEXTURETYPE_FLOAT
   \<and> \<not> textureFloatLinearFiltering (caps (newEngine webgl1Caps))
   \<and> samplingMode (snd (u_createInternalTexture_options (newEngine webgl1Caps) (TextureOptions
       \<lparr>optGenerateMipMaps = None, optCreateMipMaps = None, optType = Some TEXTURETYPE_FLOAT,
        optSamplingMode = None, optFormat = None, optUseSRGBBuffer = None, optSamples = None,
        optCreateMSAATexture = None, optComparisonFunction = None\<rparr>)))
      = TEXTURE_NEAREST_SAMPLINGMODE
   \<and> warnings (fst (u_createInternalTexture_options (newEngine webgl1Caps) (TextureOptions
       \<lparr>optGenerateMipMaps = None, optCreateMipMaps = None, optType = Some TEXTURETYPE_FLOAT,
        optSamplingMode = None, optFormat = None, optUseSRGBBuffer = None, optSamples = None,
        optCreateMSAATexture = None, optComparisonFunction = None\<rparr>)))
      = [''Float textures are not supported. Type forced to TEXTURETYPE_UNSIGNED_BYTE'']"
  using float_filtering_downgrade [where e = "newEngine webgl1Caps" and options = "TextureOptions
       \<lparr>optGenerateMipMaps = None, optCreateMipMaps = None, optType = Some TEXTURETYPE_FLOAT,
        optSamplingMode = None, optFormat = None, optUseSRGBBuffer = None, optSamples = None,
        optCreateMSAATexture = None, optComparisonFunction = None\<rparr>"]
  by (simp add: readTextureOptions_def orDefault_def newEngine_def webgl1Caps_def)

text \<open>
  The claim as stated has a warning logged with the downgrade: with float textures
  supported but not their linear filtering, the sampling mode goes from trilinear to
  nearest and no warning is logged.
\<close>

theorem float_filtering_counterexample:
  "textureType (readTextureOptions (TextureOptions
       \<lparr>optGenerateMipMaps = None, optCreateMipMaps = None, optType = Some TEXTURETYPE_FLOAT,
        optSamplingMode = None, optFormat = None, optUseSRGBBuffer = None, optSamples = None,
        optCreateMSAATexture = None, optComparisonFunction = None\<rparr>)) = TEXTURETYPE_FLOAT
   \<and> \<not> textureFloatLinearFiltering (caps (newEngine floatWithoutLinearCaps))
   \<and> samplingMode (readTextureOptions (TextureOptions
       \<lparr>optGenerateMipMaps = None, optCreateMipMaps = None, optType = Some TEXTURETYPE_FLOAT,
        optSamplingMode = None, optFormat = None, optUseSRGBBuffer = None, optSamples = None,
        optCreateMSAATexture = None, optComparisonFunction = None\<rparr>))
      = TEXTURE_TRILINEAR_SAMPLINGMODE
   \<and> samplingMode (snd (u_createInternalTexture_options (newEngine floatWithoutLinearCaps)
       (TextureOptions
       \<lparr>optGenerateMipMaps = None, optCreateMipMaps = None, optType = Some TEXTURETYPE_FLOAT,
        optSamplingMode = None, optFormat = None, optUseSRGBBuffer = None, optSamples = None,
        optCreateMSAATexture = None, optComparisonFunction = None\<rparr>)))
      = TEXTURE_NEAREST_SAMPLINGMODE
   \<and> warnings (fst (u_createInternalTexture_options (newEngine floatWithoutLinearCaps)
       (TextureOptions
       \<lparr>optGenerateMipMaps = None, optCreateMipMaps = None, optType = Some TEXTURETYPE_FLOAT,
        optSamplingMode = None, optFormat = None, optUseSRGBBuffer = None, optSamples = None,
        optCreateMSAATexture = None, optComparisonFunction = None\<rparr>)))
      = []"
  by (simp add: u_createInternalTexture_options_def Let_def readTextureOptions_def orDefault_def
        newEngine_def floatWithoutLinearCaps_def)

end
